theory Spec2Isabelle
  imports Complex_Main "HOL-Library.Word"
begin

section \<open>The GPU interface used by RenderForwardTask.cpp\<close>

text \<open>
  The forward render task talks to the GPU library through pointers to objects
  (framebuffers, textures, programs, pipelines) and through recorded command batches.
  Objects live in a store: one list per kind of object, a pointer is the index of the
  object in its list, and an allocation appends, so that a new pointer is never one that
  was handed out before. A shared pointer that may be null is a \<open>nat option\<close>.
  Releasing a shared pointer (\<open>reset()\<close>) drops the reference; the store keeps the
  object, unchanged, for whoever still holds it.
\<close>

subsection \<open>Vectors and formats\<close>

text \<open>
  \<open>glm::ivec4\<close> and \<open>glm::uvec2\<close> have 32-bit components. A component is kept as its
  32-bit pattern, which the conversion from \<open>int\<close> to \<open>unsigned\<close> in the constructor of
  \<open>frameSize\<close> leaves as it is.
\<close>

record ivec4 =
  vec_x :: "32 word"
  vec_y :: "32 word"
  vec_z :: "32 word"
  vec_w :: "32 word"

type_synonym uvec2 = "32 word \<times> 32 word"

text \<open>The colour of a clear: \<open>vec4\<close>, four floats. The only values the file writes are 0 and 1.\<close>

type_synonym vec4 = "real \<times> real \<times> real \<times> real"

datatype dimension = SCALAR
datatype element_type = UINT32
datatype semantic = DEPTH_STENCIL

datatype element = COLOR_SRGBA_32 | Element dimension element_type semantic

datatype filter = FILTER_MIN_MAG_POINT
datatype sampler = Sampler filter
datatype mips = SINGLE_MIP

subsection \<open>Textures and framebuffers\<close>

record texture =
  tex_format :: element
  tex_width :: "32 word"
  tex_height :: "32 word"
  tex_mips :: mips
  tex_sampler :: sampler

record framebuffer =
  fb_name :: string
  fb_renderBuffers :: "nat \<Rightarrow> nat option"
  fb_depthStencilBuffer :: "(nat \<times> element) option"
  fb_width :: "32 word"
  fb_height :: "32 word"

subsection \<open>Shaders, render states and pipelines\<close>

datatype shader_source = nop_frag

datatype shader = getDrawUnitQuadTexcoordVS | createPixel shader_source

record program =
  program_vs :: shader
  program_ps :: shader
  program_made :: bool

datatype comparison = LESS_EQUAL

text \<open>
  A \<open>gpu::State\<close> is kept as the calls made on it since \<open>std::make_shared<gpu::State>()\<close>,
  in order: the file sets the depth test and hands the state to
  \<open>PrepareStencil::drawBackground\<close>, whose stencil configuration is defined elsewhere.
\<close>

datatype state_call =
    setDepthTest bool bool comparison
  | PrepareStencil_drawBackground

type_synonym state = "state_call list"

record pipeline =
  pipeline_program :: nat
  pipeline_state :: state

subsection \<open>The object store\<close>

record gpu_store =
  textures :: "texture list"
  framebuffers :: "framebuffer list"
  programs :: "program list"
  pipelines :: "pipeline list"

subsection \<open>Command batches\<close>

datatype buffer_mask = BUFFER_COLOR0 | BUFFER_DEPTH | BUFFER_STENCIL

datatype primitive = TRIANGLE_STRIP

text \<open>
  The projection matrix and the view transform that a batch receives are written as what
  they are computed from: the view frustum they were evaluated on. \<open>Transform\<close> is the
  default-constructed transform \<open>Transform()\<close>, the identity.
\<close>

datatype 'f mat4 = evalProjectionMatrix 'f

datatype 'f transform = Transform | evalViewTransform 'f

text \<open>
  The commands a \<open>gpu::Batch\<close> records. \<open>drawItem\<close> is the draw call that rendering one
  item of a bucket records.
\<close>

datatype ('f, 'i) command =
    enableStereo bool
  | enableSkybox bool
  | setViewportTransform ivec4
  | setStateScissorRect ivec4
  | setFramebuffer "nat option"
  | clearFramebuffer "buffer_mask set" vec4 real "32 word" bool
  | setProjectionTransform "'f mat4"
  | setViewTransform "'f transform"
  | setModelTransform "'f transform"
  | setPipeline "nat option"
  | draw primitive nat
  | drawItem 'i

type_synonym ('f, 'i) batch = "('f, 'i) command list"

subsection \<open>The render arguments\<close>

text \<open>
  What \<open>renderContext->args\<close> gives access to: the viewport, the pointer \<open>_batch\<close> to the
  batch being recorded (null when it is \<open>None\<close>), the view frustum, and the GPU context
  \<open>_context\<close>, which is the list of the batches submitted to it, oldest first. The object
  store is carried along with them. A batch is pointed to by the position it takes in
  the context when it is submitted.
\<close>

record ('f, 'i) world =
  args_viewport :: ivec4
  args_batch :: "nat option"
  args_viewFrustum :: 'f
  args_context :: "('f, 'i) batch list"
  gpu :: gpu_store

text \<open>
  Modelled from the spec: \<open>gpu::doInBatch\<close> (gpu/Context.h is not part of the sources) is
  the "open-batch-and-submit scoped execution" of the GPU context: it opens an empty
  batch, runs the function on it, and submits the batch to the context. The function
  captures its surroundings by reference, so it gets and returns the node it belongs to
  and the world, beside the batch and the pointer to it.
\<close>

definition doInBatch ::
  "(nat \<Rightarrow> ('f, 'i) batch \<times> 'n \<times> ('f, 'i) world \<Rightarrow> ('f, 'i) batch \<times> 'n \<times> ('f, 'i) world)
    \<Rightarrow> 'n \<times> ('f, 'i) world \<Rightarrow> 'n \<times> ('f, 'i) world" where
  "doInBatch f nw =
     (case f (length (args_context (snd nw))) ([], fst nw, snd nw) of
        (batch, n', w') \<Rightarrow> (n', w'\<lparr>args_context := args_context w' @ [batch]\<rparr>))"

text \<open>
  The calls of the GPU library that make and attach render targets are not part of the
  sources (gpu/Framebuffer.h, gpu/Texture.h). The spec describes what they leave: a
  framebuffer that "owns a color attachment and a combined depth/stencil attachment,
  both sized to the current viewport", with "a fixed single-mip color attachment
  (point-filtered sampler)".
\<close>

text \<open>
  Modelled from the spec: \<open>gpu::Framebuffer::create\<close> allocates a framebuffer that has
  the given name, no attachment and no size yet.
\<close>

definition Framebuffer_create :: "string \<Rightarrow> gpu_store \<Rightarrow> nat \<times> gpu_store" where
  "Framebuffer_create nm g =
     (length (framebuffers g),
      g\<lparr>framebuffers := framebuffers g @
           [\<lparr>fb_name = nm, fb_renderBuffers = (\<lambda>slot. None), fb_depthStencilBuffer = None,
             fb_width = 0, fb_height = 0\<rparr>]\<rparr>)"

text \<open>
  Modelled from the spec: \<open>gpu::Texture::createRenderBuffer\<close> allocates a texture of the
  format, width, height, mip count and sampler asked for.
\<close>

definition Texture_createRenderBuffer ::
  "element \<Rightarrow> 32 word \<Rightarrow> 32 word \<Rightarrow> mips \<Rightarrow> sampler \<Rightarrow> gpu_store \<Rightarrow> nat \<times> gpu_store" where
  "Texture_createRenderBuffer fmt width height nmips smp g =
     (length (textures g),
      g\<lparr>textures := textures g @
           [\<lparr>tex_format = fmt, tex_width = width, tex_height = height, tex_mips = nmips,
             tex_sampler = smp\<rparr>]\<rparr>)"

text \<open>
  Modelled from the spec: \<open>Framebuffer::setRenderBuffer\<close> attaches the texture as the colour
  buffer of the given slot, which gives the framebuffer the size of the texture.
\<close>

definition setRenderBuffer :: "nat \<Rightarrow> nat \<Rightarrow> nat \<Rightarrow> gpu_store \<Rightarrow> gpu_store" where
  "setRenderBuffer fb slot tex g =
     g\<lparr>framebuffers := (framebuffers g)[fb := (framebuffers g ! fb)
          \<lparr>fb_renderBuffers := (fb_renderBuffers (framebuffers g ! fb))(slot := Some tex),
           fb_width := tex_width (textures g ! tex),
           fb_height := tex_height (textures g ! tex)\<rparr>]\<rparr>"

text \<open>
  Modelled from the spec: \<open>Framebuffer::setDepthStencilBuffer\<close> attaches the texture, with
  its format, as the combined depth and stencil buffer.
\<close>

definition setDepthStencilBuffer :: "nat \<Rightarrow> nat \<Rightarrow> element \<Rightarrow> gpu_store \<Rightarrow> gpu_store" where
  "setDepthStencilBuffer fb tex fmt g =
     g\<lparr>framebuffers := (framebuffers g)[fb := (framebuffers g ! fb)
          \<lparr>fb_depthStencilBuffer := Some (tex, fmt)\<rparr>]\<rparr>"

text \<open>
  Modelled from the spec: \<open>Framebuffer::getSize\<close> is the size of the framebuffer, that of
  its attachments.
\<close>

definition getSize :: "framebuffer \<Rightarrow> uvec2" where
  "getSize fb = (fb_width fb, fb_height fb)"

section \<open>PrepareFramebuffer\<close>

text \<open>The node owns one shared pointer, \<open>_framebuffer\<close>, null until the first run.\<close>

record prepare_framebuffer =
  pf_framebuffer :: "nat option"

definition frameSize :: "('f, 'i) world \<Rightarrow> uvec2" where
  "frameSize w = (vec_z (args_viewport w), vec_w (args_viewport w))"

text \<open>Lines 100 to 102: a framebuffer of another size is released, never resized.\<close>

definition PrepareFramebuffer_release ::
  "prepare_framebuffer \<Rightarrow> ('f, 'i) world \<Rightarrow> prepare_framebuffer" where
  "PrepareFramebuffer_release n w =
     (case pf_framebuffer n of
        Some fb \<Rightarrow>
          if getSize (framebuffers (gpu w) ! fb) \<noteq> frameSize w
          then n\<lparr>pf_framebuffer := None\<rparr> else n
      | None \<Rightarrow> n)"

text \<open>Lines 104 to 117: without a framebuffer, one is created with its two attachments.\<close>

definition PrepareFramebuffer_allocate ::
  "prepare_framebuffer \<Rightarrow> ('f, 'i) world \<Rightarrow> prepare_framebuffer \<times> ('f, 'i) world" where
  "PrepareFramebuffer_allocate n w =
     (case pf_framebuffer n of
        Some fb \<Rightarrow> (n, w)
      | None \<Rightarrow>
          (let (fb, g1) = Framebuffer_create ''forward'' (gpu w);
               colorFormat = COLOR_SRGBA_32;
               defaultSampler = Sampler FILTER_MIN_MAG_POINT;
               (colorTexture, g2) =
                  Texture_createRenderBuffer colorFormat (fst (frameSize w)) (snd (frameSize w))
                    SINGLE_MIP defaultSampler g1;
               g3 = setRenderBuffer fb 0 colorTexture g2;
               depthFormat = Element SCALAR UINT32 DEPTH_STENCIL;
               (depthTexture, g4) =
                  Texture_createRenderBuffer depthFormat (fst (frameSize w)) (snd (frameSize w))
                    SINGLE_MIP defaultSampler g3;
               g5 = setDepthStencilBuffer fb depthTexture depthFormat g4
           in (n\<lparr>pf_framebuffer := Some fb\<rparr>, w\<lparr>gpu := g5\<rparr>)))"

text \<open>Lines 120 to 129: the function handed to \<open>doInBatch\<close>.\<close>

definition PrepareFramebuffer_batch ::
  "nat \<Rightarrow> ('f, 'i) batch \<times> prepare_framebuffer \<times> ('f, 'i) world
    \<Rightarrow> ('f, 'i) batch \<times> prepare_framebuffer \<times> ('f, 'i) world" where
  "PrepareFramebuffer_batch p s =
     (case s of (batch, n, w) \<Rightarrow>
        (batch @
           [enableStereo False,
            setViewportTransform (args_viewport w),
            setStateScissorRect (args_viewport w),
            setFramebuffer (pf_framebuffer n),
            clearFramebuffer ({BUFFER_COLOR0} \<union> {BUFFER_DEPTH} \<union> {BUFFER_STENCIL})
              (0, 0, 0, 1) 1 0 True],
         n, w))"

text \<open>
  \<open>PrepareFramebuffer::run\<close>. The third component of the result is what the run writes
  to its output, the reference parameter \<open>framebuffer\<close> (line 131).
\<close>

definition PrepareFramebuffer_run ::
  "prepare_framebuffer \<Rightarrow> ('f, 'i) world
    \<Rightarrow> prepare_framebuffer \<times> ('f, 'i) world \<times> nat option" where
  "PrepareFramebuffer_run n w =
     (let n1 = PrepareFramebuffer_release n w;
          (n2, w2) = PrepareFramebuffer_allocate n1 w;
          (n3, w3) = doInBatch PrepareFramebuffer_batch (n2, w2)
      in (n3, w3, pf_framebuffer n3))"

section \<open>Stencil\<close>

text \<open>The node caches its pipeline in \<open>_stencilPipeline\<close>, null until it is first asked for.\<close>

record stencil =
  stencil_pipeline :: "nat option"

text \<open>
  The calls of the GPU library that construct programs and pipelines are not part of the
  sources (gpu/Shader.h, gpu/Pipeline.h). Each construction adds one object to the
  store, which is how the constructions are counted.
\<close>

text \<open>
  Modelled from the spec: \<open>gpu::Shader::createProgram\<close> constructs a program of a vertex
  and a pixel shader.
\<close>

definition Shader_createProgram :: "shader \<Rightarrow> shader \<Rightarrow> gpu_store \<Rightarrow> nat \<times> gpu_store" where
  "Shader_createProgram vs ps g =
     (length (programs g),
      g\<lparr>programs := programs g @ [\<lparr>program_vs = vs, program_ps = ps, program_made = False\<rparr>]\<rparr>)"

text \<open>
  Modelled from the spec: \<open>gpu::Shader::makeProgram\<close> makes the program ready for use, in
  place.
\<close>

definition Shader_makeProgram :: "nat \<Rightarrow> gpu_store \<Rightarrow> gpu_store" where
  "Shader_makeProgram p g =
     g\<lparr>programs := (programs g)[p := (programs g ! p)\<lparr>program_made := True\<rparr>]\<rparr>"

text \<open>
  Modelled from the spec: \<open>gpu::Pipeline::create\<close> constructs a pipeline of a program and
  a render state.
\<close>

definition Pipeline_create :: "nat \<Rightarrow> state \<Rightarrow> gpu_store \<Rightarrow> nat \<times> gpu_store" where
  "Pipeline_create p st g =
     (length (pipelines g),
      g\<lparr>pipelines := pipelines g @ [\<lparr>pipeline_program = p, pipeline_state = st\<rparr>]\<rparr>)"

text \<open>\<open>Stencil::getPipeline\<close>: the pipeline returned, the node and the store.\<close>

definition Stencil_getPipeline ::
  "stencil \<Rightarrow> gpu_store \<Rightarrow> nat option \<times> stencil \<times> gpu_store" where
  "Stencil_getPipeline n g =
     (case stencil_pipeline n of
        None \<Rightarrow>
          (let vs = getDrawUnitQuadTexcoordVS;
               ps = createPixel nop_frag;
               (program, g1) = Shader_createProgram vs ps g;
               g2 = Shader_makeProgram program g1;
               state0 = [];
               state1 = state0 @ [setDepthTest True False LESS_EQUAL];
               state2 = state1 @ [PrepareStencil_drawBackground];
               (pl, g3) = Pipeline_create program state2 g2
           in (Some pl, n\<lparr>stencil_pipeline := Some pl\<rparr>, g3))
      | Some pl \<Rightarrow> (Some pl, n, g))"

text \<open>Lines 174 to 183: the function handed to \<open>doInBatch\<close>.\<close>

definition Stencil_batch ::
  "nat \<Rightarrow> ('f, 'i) batch \<times> stencil \<times> ('f, 'i) world
    \<Rightarrow> ('f, 'i) batch \<times> stencil \<times> ('f, 'i) world" where
  "Stencil_batch p s =
     (case s of (batch, n, w) \<Rightarrow>
        (let w1 = w\<lparr>args_batch := Some p\<rparr>;
             batch1 = batch @
               [enableStereo False,
                setViewportTransform (args_viewport w1),
                setStateScissorRect (args_viewport w1)];
             (pl, n2, g2) = Stencil_getPipeline n (gpu w1);
             batch2 = batch1 @ [setPipeline pl, draw TRIANGLE_STRIP 4]
         in (batch2, n2, w1\<lparr>gpu := g2\<rparr>)))"

definition Stencil_run :: "stencil \<Rightarrow> ('f, 'i) world \<Rightarrow> stencil \<times> ('f, 'i) world" where
  "Stencil_run n w =
     (case doInBatch Stencil_batch (n, w) of
        (n', w') \<Rightarrow> (n', w'\<lparr>args_batch := None\<rparr>))"

section \<open>Draw\<close>

text \<open>
  A registry of shape pipelines, the \<open>ShapePlumber\<close>: the pipeline of a pipeline key, for
  the keys it has. The node holds the pointer \<open>_shapePlumber\<close> to it.
\<close>

type_synonym shape_plumber = "nat \<Rightarrow> nat option"

text \<open>
  \<open>render::renderStateSortShapes\<close> is defined outside the file (render/DrawTask.cpp), so
  \<open>Draw::run\<close> takes it as the parameter \<open>rsss\<close>: called with the items and the maximum
  number of items to draw, it works on the render context it is given, that is on the
  batch under \<open>args->_batch\<close>, the registry and the world.
\<close>

type_synonym ('f, 'i) render_shapes =
  "'i list \<Rightarrow> int \<Rightarrow> ('f, 'i) batch \<times> shape_plumber \<times> ('f, 'i) world
     \<Rightarrow> ('f, 'i) batch \<times> shape_plumber \<times> ('f, 'i) world"

text \<open>Lines 138 to 147: what the function handed to \<open>doInBatch\<close> does before it renders.\<close>

definition Draw_setup ::
  "nat \<Rightarrow> ('f, 'i) batch \<times> shape_plumber \<times> ('f, 'i) world
    \<Rightarrow> ('f, 'i) batch \<times> shape_plumber \<times> ('f, 'i) world" where
  "Draw_setup p s =
     (case s of (batch, plumber, w) \<Rightarrow>
        (let w1 = w\<lparr>args_batch := Some p\<rparr>;
             projMat = evalProjectionMatrix (args_viewFrustum w1);
             viewMat = evalViewTransform (args_viewFrustum w1);
             batch1 = batch @
               [setProjectionTransform projMat,
                setViewTransform viewMat,
                setModelTransform Transform]
         in (batch1, plumber, w1)))"

definition Draw_batch ::
  "('f, 'i) render_shapes \<Rightarrow> 'i list \<Rightarrow> nat
    \<Rightarrow> ('f, 'i) batch \<times> shape_plumber \<times> ('f, 'i) world
    \<Rightarrow> ('f, 'i) batch \<times> shape_plumber \<times> ('f, 'i) world" where
  "Draw_batch rsss items p s = rsss items (- 1) (Draw_setup p s)"

definition Draw_run ::
  "('f, 'i) render_shapes \<Rightarrow> shape_plumber \<Rightarrow> 'i list \<Rightarrow> ('f, 'i) world
    \<Rightarrow> shape_plumber \<times> ('f, 'i) world" where
  "Draw_run rsss plumber items w =
     (case doInBatch (Draw_batch rsss items) (plumber, w) of
        (plumber', w') \<Rightarrow> (plumber', w'\<lparr>args_batch := None\<rparr>))"

section \<open>DrawBackground\<close>

text \<open>
  \<open>render::renderItems\<close> is defined outside the file as well and is the parameter \<open>ri\<close>
  of \<open>DrawBackground::run\<close>. The node has no member of its own.
\<close>

type_synonym ('f, 'i) render_items =
  "'i list \<Rightarrow> ('f, 'i) batch \<times> unit \<times> ('f, 'i) world
     \<Rightarrow> ('f, 'i) batch \<times> unit \<times> ('f, 'i) world"

text \<open>Lines 191 to 203: what the function handed to \<open>doInBatch\<close> does before it renders.\<close>

definition DrawBackground_setup ::
  "nat \<Rightarrow> ('f, 'i) batch \<times> unit \<times> ('f, 'i) world
    \<Rightarrow> ('f, 'i) batch \<times> unit \<times> ('f, 'i) world" where
  "DrawBackground_setup p s =
     (case s of (batch, u, w) \<Rightarrow>
        (let w1 = w\<lparr>args_batch := Some p\<rparr>;
             batch1 = batch @
               [enableSkybox True,
                setViewportTransform (args_viewport w1),
                setStateScissorRect (args_viewport w1)];
             projMat = evalProjectionMatrix (args_viewFrustum w1);
             viewMat = evalViewTransform (args_viewFrustum w1);
             batch2 = batch1 @ [setProjectionTransform projMat, setViewTransform viewMat]
         in (batch2, u, w1)))"

definition DrawBackground_batch ::
  "('f, 'i) render_items \<Rightarrow> 'i list \<Rightarrow> nat
    \<Rightarrow> ('f, 'i) batch \<times> unit \<times> ('f, 'i) world
    \<Rightarrow> ('f, 'i) batch \<times> unit \<times> ('f, 'i) world" where
  "DrawBackground_batch ri background p s = ri background (DrawBackground_setup p s)"

definition DrawBackground_run ::
  "('f, 'i) render_items \<Rightarrow> 'i list \<Rightarrow> ('f, 'i) world \<Rightarrow> ('f, 'i) world" where
  "DrawBackground_run ri background w =
     (case doInBatch (DrawBackground_batch ri background) ((), w) of
        (u, w') \<Rightarrow> w'\<lparr>args_batch := None\<rparr>)"

section \<open>Rendering the shapes of a bucket\<close>

text \<open>
  A render item as the dispatcher sees it: the handle of the item in the item store and
  its pipeline key.
\<close>

record item =
  item_id :: nat
  item_key :: nat

text \<open>
  \<open>render::renderStateSortShapes\<close> is not part of the sources (render/DrawTask.cpp).
  Section 4.3 of the spec gives the dispatch: "group items by pipeline key, sort groups
  by a key-derived ordering (stable, deterministic across frames), and for each group
  bind its pipeline state once and issue one draw call per item in the group"; "a
  failed item (e.g., missing pipeline) is skipped; dispatch does not abort".
\<close>

text \<open>
  Modelled from the spec: the groups of a bucket, one per pipeline key, in ascending
  order of the keys, the items of a group in the order they have in the bucket.
\<close>

definition shape_groups :: "item list \<Rightarrow> (nat \<times> item list) list" where
  "shape_groups items =
     map (\<lambda>key. (key, filter (\<lambda>i. item_key i = key) items))
       (sort (remdups (map item_key items)))"

text \<open>
  Modelled from the spec: the commands of one group, the bind of its pipeline and one
  draw call per item, or nothing when the registry has no pipeline for the key.
\<close>

definition render_group :: "shape_plumber \<Rightarrow> nat \<times> item list \<Rightarrow> ('f, item) batch" where
  "render_group plumber g =
     (case plumber (fst g) of
        None \<Rightarrow> []
      | Some pl \<Rightarrow> setPipeline (Some pl) # map drawItem (snd g))"

text \<open>
  Modelled from the spec: \<open>render::renderStateSortShapes\<close> records the commands of the
  groups, in their order, on the batch. The spec gives the maximum number of items no
  role; the file passes -1.
\<close>

definition renderStateSortShapes :: "('f, item) render_shapes" where
  "renderStateSortShapes items maxDrawnItems s =
     (case s of (batch, plumber, w) \<Rightarrow>
        (batch @ concat (map (render_group plumber) (shape_groups items)), plumber, w))"

text \<open>The pipeline binds and the draw calls of a batch, in the order they were recorded.\<close>

fun is_bind_or_draw :: "('f, 'i) command \<Rightarrow> bool" where
  "is_bind_or_draw (setPipeline pl) = True"
| "is_bind_or_draw (draw prim n) = True"
| "is_bind_or_draw (drawItem i) = True"
| "is_bind_or_draw c = False"


section \<open>The task graph\<close>

text \<open>
  The buckets of \<open>RenderFetchCullSortTask\<close> that the file names, and a varying: a handle
  on a shared slot, where copies of a varying are the same slot.
\<close>

datatype bucket =
    OPAQUE_SHAPE | TRANSPARENT_SHAPE | LIGHT | META
  | OVERLAY_OPAQUE_SHAPE | OVERLAY_TRANSPARENT_SHAPE | BACKGROUND

datatype varying = Varying (slot: nat)

text \<open>
  The kinds of job that \<open>build\<close> adds, each with the members of a newly constructed node:
  \<open>PrepareFramebuffer\<close> with its framebuffer pointer, \<open>Draw\<close> with the registry it was
  constructed on. \<open>PrepareStencil\<close> is a class of StencilMaskPass.h; section 4.4 of the
  spec describes it by the cached pipeline of \<open>Stencil\<close>, which is the member it gets here.
\<close>

datatype node =
    MakeLightingModel
  | ZoneRendererTask
  | PrepareFramebuffer prepare_framebuffer
  | PrepareStencil stencil
  | Draw shape_plumber
  | DrawBackgroundStage
  | DrawBounds
  | CompositeHUD
  | Blit

record job =
  job_name :: string
  job_node :: node
  job_input :: "varying option"
  job_output :: varying

text \<open>
  The task under construction: its jobs in the order they were added, and the number of
  varyings allocated so far, which numbers the next one.
\<close>

record task =
  task_jobs :: "job list"
  task_varyings :: nat

text \<open>
  Modelled from the spec: \<open>addJob\<close> (task/Task.h is not part of the sources) constructs a
  node of the given kind under the given name, wires the given varying to its input,
  appends it to the task, and returns the node's own, new, output varying.
\<close>

definition addJob :: "string \<Rightarrow> node \<Rightarrow> varying option \<Rightarrow> task \<Rightarrow> varying \<times> task" where
  "addJob nm nd inp t =
     (Varying (task_varyings t),
      t\<lparr>task_jobs := task_jobs t @
           [\<lparr>job_name = nm, job_node = nd, job_input = inp,
             job_output = Varying (task_varyings t)\<rparr>],
        task_varyings := Suc (task_varyings t)\<rparr>)"

text \<open>
  The fade effect is a collaborator defined outside the file: it supplies the two setters
  and has a \<open>build\<close> of its own, which is given the task and the opaque bucket.
\<close>

record ('bs, 'is) fade_effect =
  getBatchSetter :: 'bs
  getItemUniformSetter :: 'is
  FadeEffect_build :: "task \<Rightarrow> varying \<Rightarrow> task"

text \<open>
  \<open>RenderForwardTask::build\<close>. \<open>initForwardPipelines\<close> is declared \<open>extern\<close> and is a
  parameter; the input gives the varying of each bucket (\<open>items.get0()\<close>); the parameter
  \<open>output\<close> of the source is never written.
\<close>

definition RenderForwardTask_build ::
  "(shape_plumber \<Rightarrow> 'bs \<Rightarrow> 'is \<Rightarrow> shape_plumber) \<Rightarrow> ('bs, 'is) fade_effect
    \<Rightarrow> task \<Rightarrow> (bucket \<Rightarrow> varying) \<Rightarrow> task" where
  "RenderForwardTask_build initForwardPipelines fadeEffect task items =
     (let shapePlumber = initForwardPipelines (\<lambda>key. None)
            (getBatchSetter fadeEffect) (getItemUniformSetter fadeEffect);
          opaques = items OPAQUE_SHAPE;
          transparents = items TRANSPARENT_SHAPE;
          metas = items META;
          t0 = FadeEffect_build fadeEffect task opaques;
          (lightingModel, t1) = addJob ''LightingModel'' MakeLightingModel None t0;
          (zones, t2) = addJob ''ZoneRenderer'' ZoneRendererTask (Some metas) t1;
          (framebuffer, t3) =
             addJob ''PrepareFramebuffer'' (PrepareFramebuffer \<lparr>pf_framebuffer = None\<rparr>) None t2;
          (o4, t4) =
             addJob ''PrepareStencil'' (PrepareStencil \<lparr>stencil_pipeline = None\<rparr>)
               (Some framebuffer) t3;
          (o5, t5) = addJob ''DrawOpaques'' (Draw shapePlumber) (Some opaques) t4;
          (o6, t6) = addJob ''DrawBackgroundDeferred'' DrawBackgroundStage (Some lightingModel) t5;
          (o7, t7) = addJob ''DrawTransparents'' (Draw shapePlumber) (Some transparents) t6;
          (o8, t8) = addJob ''DrawMetaBounds'' DrawBounds (Some metas) t7;
          (o9, t9) = addJob ''DrawBounds'' DrawBounds (Some opaques) t8;
          (o10, t10) = addJob ''DrawTransparentBounds'' DrawBounds (Some transparents) t9;
          (o11, t11) = addJob ''DrawZones'' DrawBounds (Some zones) t10;
          (o12, t12) = addJob ''HUD'' CompositeHUD None t11;
          (o13, t13) = addJob ''Blit'' Blit (Some framebuffer) t12
      in t13)"

section \<open>Running a frame\<close>

text \<open>
  What a varying holds: the items of a bucket, a framebuffer pointer, or a value of a
  node defined outside the file.
\<close>

datatype 'x val = ItemBounds "item list" | FramebufferPointer "nat option" | External 'x

datatype exec_error = DanglingInput string | WrongInput string

text \<open>
  Modelled from the spec: the nodes defined outside the file (lighting model, zone
  renderer, background stage, debug bounds, HUD, blit) are a parameter of a frame. Given
  the job, the value of its input, the world and their own state, such a node gives the
  value of its output, the batches it submits and its new state: the GPU context is
  "the sole side-effect channel" (section 6), and the framebuffer "is mutated only by
  PrepareFramebuffer" (section 5), so such a node leaves the store and the render
  arguments as they are.
\<close>

type_synonym ('f, 'x, 'e) external =
  "job \<Rightarrow> 'x val option \<Rightarrow> ('f, item) world \<Rightarrow> 'e
     \<Rightarrow> 'x val \<times> ('f, item) batch list \<times> 'e"

record ('f, 'x, 'e) frame =
  frame_world :: "('f, item) world"
  frame_varyings :: "nat \<Rightarrow> 'x val option"
  frame_external :: 'e

text \<open>What is recorded of the run of one job: its name, what it read, wrote and submitted.\<close>

record ('f, 'x) job_run =
  run_name :: string
  run_input :: "'x val option"
  run_output :: "'x val option"
  run_batches :: "('f, item) batch list"

text \<open>
  The execution of the graph (task/Task.h is not part of the
  sources) is modelled from sections 3 and 5 of the spec: the nodes run once per frame "in the exact sequence
  fixed at build time", a node reads the value of its input varying, and "varying writes
  from node N are visible to all nodes after N in that sequence". A varying that holds
  no value when a node reads it is the dangling dependency of section 4.1, and a value
  that is not a bucket on the input of \<open>Draw\<close> is its type mismatch; the spec
  wants both found when the graph is built, \<open>build\<close> in the file checks neither, and
  here the frame stops with the error when it comes to the node. \<open>PrepareFramebuffer\<close>
  and \<open>Draw\<close> run as the file defines them, \<open>Draw\<close> with the dispatch of section 4.3;
  \<open>PrepareStencil\<close> runs as section 4.4 says, which is \<open>Stencil::run\<close>; neither
  \<open>PrepareStencil\<close> nor \<open>Draw\<close> writes an output.
\<close>

text \<open>
  Modelled from the spec: the value that a job reads from its input varying, when it has
  one.
\<close>

definition read_input :: "job \<Rightarrow> (nat \<Rightarrow> 'x val option) \<Rightarrow> exec_error + 'x val option" where
  "read_input j vs =
     (case job_input j of
        None \<Rightarrow> Inr None
      | Some (Varying v) \<Rightarrow>
          (case vs v of
             None \<Rightarrow> Inl (DanglingInput (job_name j))
           | Some x \<Rightarrow> Inr (Some x)))"

text \<open>
  Modelled from the spec: the run of the node of a job, on the value of its input; the
  result is the node after the run, the value for its output, the world and the state
  of the outside nodes.
\<close>

definition run_node ::
  "('f, 'x, 'e) external \<Rightarrow> job \<Rightarrow> 'x val option \<Rightarrow> ('f, item) world \<Rightarrow> 'e
    \<Rightarrow> exec_error + (node \<times> 'x val option \<times> ('f, item) world \<times> 'e)" where
  "run_node ext j inp w e =
     (case job_node j of
        PrepareFramebuffer n \<Rightarrow>
          (case PrepareFramebuffer_run n w of
             (n', w', out) \<Rightarrow> Inr (PrepareFramebuffer n', Some (FramebufferPointer out), w', e))
      | PrepareStencil n \<Rightarrow>
          (case Stencil_run n w of (n', w') \<Rightarrow> Inr (PrepareStencil n', None, w', e))
      | Draw plumber \<Rightarrow>
          (case inp of
             Some (ItemBounds items) \<Rightarrow>
               (case Draw_run renderStateSortShapes plumber items w of
                  (plumber', w') \<Rightarrow> Inr (Draw plumber', None, w', e))
           | _ \<Rightarrow> Inl (WrongInput (job_name j)))
      | _ \<Rightarrow>
          (case ext j inp w e of
             (out, batches, e') \<Rightarrow>
               Inr (job_node j, Some out, w\<lparr>args_context := args_context w @ batches\<rparr>, e')))"

text \<open>Modelled from the spec: a value written to a varying is what the varying holds.\<close>

definition write_output ::
  "varying \<Rightarrow> 'x val option \<Rightarrow> (nat \<Rightarrow> 'x val option) \<Rightarrow> (nat \<Rightarrow> 'x val option)" where
  "write_output v out vs =
     (case out of None \<Rightarrow> vs | Some x \<Rightarrow> (case v of Varying k \<Rightarrow> vs(k := Some x)))"

text \<open>
  Modelled from the spec: the run of one job in a frame, and the record of it; the
  batches of the job are those that the context has gained.
\<close>

definition run_job ::
  "('f, 'x, 'e) external \<Rightarrow> job \<Rightarrow> ('f, 'x, 'e) frame
    \<Rightarrow> exec_error + (job \<times> ('f, 'x, 'e) frame \<times> ('f, 'x) job_run)" where
  "run_job ext j fr =
     (case read_input j (frame_varyings fr) of
        Inl err \<Rightarrow> Inl err
      | Inr inp \<Rightarrow>
          (case run_node ext j inp (frame_world fr) (frame_external fr) of
             Inl err \<Rightarrow> Inl err
           | Inr (nd, out, w, e) \<Rightarrow>
               Inr (j\<lparr>job_node := nd\<rparr>,
                    \<lparr>frame_world = w,
                     frame_varyings = write_output (job_output j) out (frame_varyings fr),
                     frame_external = e\<rparr>,
                    \<lparr>run_name = job_name j, run_input = inp, run_output = out,
                     run_batches =
                       drop (length (args_context (frame_world fr))) (args_context w)\<rparr>)))"

text \<open>
  Modelled from the spec: the jobs of a graph run in their order, up to the first
  error.
\<close>

fun run_jobs ::
  "('f, 'x, 'e) external \<Rightarrow> job list \<Rightarrow> ('f, 'x, 'e) frame
    \<Rightarrow> exec_error + (job list \<times> ('f, 'x, 'e) frame \<times> ('f, 'x) job_run list)" where
  "run_jobs ext [] fr = Inr ([], fr, [])"
| "run_jobs ext (j # js) fr =
     (case run_job ext j fr of
        Inl err \<Rightarrow> Inl err
      | Inr (j', fr', r) \<Rightarrow>
          (case run_jobs ext js fr' of
             Inl err \<Rightarrow> Inl err
           | Inr (js', fr'', rs) \<Rightarrow> Inr (j' # js', fr'', r # rs)))"

section \<open>Sequences of runs\<close>

text \<open>
  A node is run once per frame. The definitions of this section run a node of the file
  several times in a row, so that what holds across frames can be stated.
\<close>

text \<open>
  The pointer of a \<open>PrepareFramebuffer\<close> node is valid when it is null or refers to a
  framebuffer of the store, as every shared pointer does.
\<close>

definition pf_valid :: "prepare_framebuffer \<Rightarrow> ('f, 'i) world \<Rightarrow> bool" where
  "pf_valid n w =
     (case pf_framebuffer n of
        None \<Rightarrow> True
      | Some fb \<Rightarrow> fb < length (framebuffers (gpu w)))"

text \<open>The size of the framebuffer that the node owns, when it owns one.\<close>

definition owned_size :: "prepare_framebuffer \<times> ('f, 'i) world \<Rightarrow> uvec2 option" where
  "owned_size s =
     (case pf_framebuffer (fst s) of
        None \<Rightarrow> None
      | Some fb \<Rightarrow>
          if fb < length (framebuffers (gpu (snd s)))
          then Some (getSize (framebuffers (gpu (snd s)) ! fb)) else None)"

text \<open>
  \<open>PrepareFramebuffer::run\<close> over the viewports of successive frames: the node and the
  world after each run.
\<close>

fun PrepareFramebuffer_frames ::
  "prepare_framebuffer \<Rightarrow> ('f, 'i) world \<Rightarrow> ivec4 list
    \<Rightarrow> (prepare_framebuffer \<times> ('f, 'i) world) list" where
  "PrepareFramebuffer_frames n w [] = []"
| "PrepareFramebuffer_frames n w (vp # vps) =
     (case PrepareFramebuffer_run n (w\<lparr>args_viewport := vp\<rparr>) of
        (n', w', out) \<Rightarrow> (n', w') # PrepareFramebuffer_frames n' w' vps)"

fun is_clear :: "('f, 'i) command \<Rightarrow> bool" where
  "is_clear (clearFramebuffer m c d s e) = True"
| "is_clear c = False"

text \<open>\<open>Stencil::run\<close>, a number of times on the same node.\<close>

fun Stencil_runs :: "nat \<Rightarrow> stencil \<Rightarrow> ('f, 'i) world \<Rightarrow> stencil \<times> ('f, 'i) world" where
  "Stencil_runs 0 n w = (n, w)"
| "Stencil_runs (Suc k) n w = (case Stencil_run n w of (n', w') \<Rightarrow> Stencil_runs k n' w')"

text \<open>The batch that a run of \<open>Stencil\<close> records, given the viewport and the pipeline.\<close>

definition stencil_commands :: "ivec4 \<Rightarrow> nat \<Rightarrow> ('f, 'i) batch" where
  "stencil_commands vp pl =
     [enableStereo False, setViewportTransform vp, setStateScissorRect vp,
      setPipeline (Some pl), draw TRIANGLE_STRIP 4]"

text \<open>
  Any sequence of calls of the four \<open>run\<close> operations of the file, on one
  \<open>PrepareFramebuffer\<close> node, one \<open>Stencil\<close> node and the render arguments they share.
\<close>

datatype ('f, 'i) call =
    Call_PrepareFramebuffer
  | Call_Draw "('f, 'i) render_shapes" shape_plumber "'i list"
  | Call_Stencil
  | Call_DrawBackground "('f, 'i) render_items" "'i list"

fun run_call ::
  "('f, 'i) call \<Rightarrow> prepare_framebuffer \<times> stencil \<times> ('f, 'i) world
    \<Rightarrow> prepare_framebuffer \<times> stencil \<times> ('f, 'i) world" where
  "run_call Call_PrepareFramebuffer (pf, st, w) =
     (case PrepareFramebuffer_run pf w of (pf', w', out) \<Rightarrow> (pf', st, w'))"
| "run_call (Call_Draw rsss plumber items) (pf, st, w) =
     (pf, st, snd (Draw_run rsss plumber items w))"
| "run_call Call_Stencil (pf, st, w) =
     (case Stencil_run st w of (st', w') \<Rightarrow> (pf, st', w'))"
| "run_call (Call_DrawBackground ri background) (pf, st, w) =
     (pf, st, DrawBackground_run ri background w)"

fun run_calls ::
  "('f, 'i) call list \<Rightarrow> prepare_framebuffer \<times> stencil \<times> ('f, 'i) world
    \<Rightarrow> prepare_framebuffer \<times> stencil \<times> ('f, 'i) world" where
  "run_calls [] s = s"
| "run_calls (c # cs) s = run_calls cs (run_call c s)"

text \<open>
  Modelled from the spec: the frames of a graph, one after the other ("\<open>run\<close> invoked
  exactly once per frame, in the graph's fixed topological order"). The nodes keep their
  members from one frame to the next. What happens outside the graph before each frame
  (the buckets are produced, the viewport may change, the submitted batches are
  consumed) is a function on the frame, one per frame. The result holds the record of
  every frame.
\<close>

fun run_frames ::
  "('f, 'x, 'e) external \<Rightarrow> job list \<Rightarrow> ('f, 'x, 'e) frame
    \<Rightarrow> (('f, 'x, 'e) frame \<Rightarrow> ('f, 'x, 'e) frame) list
    \<Rightarrow> exec_error + (job list \<times> ('f, 'x, 'e) frame \<times> ('f, 'x) job_run list list)" where
  "run_frames ext jobs fr [] = Inr (jobs, fr, [])"
| "run_frames ext jobs fr (between # betweens) =
     (case run_jobs ext jobs (between fr) of
        Inl err \<Rightarrow> Inl err
      | Inr (jobs', fr', trace) \<Rightarrow>
          (case run_frames ext jobs' fr' betweens of
             Inl err \<Rightarrow> Inl err
           | Inr (jobs'', fr'', traces) \<Rightarrow> Inr (jobs'', fr'', trace # traces)))"

text \<open>
  What a frame leaves of a job as it is: its name, its input and output varyings, and
  whether it is the \<open>PrepareFramebuffer\<close> node.
\<close>

fun is_PrepareFramebuffer :: "node \<Rightarrow> bool" where
  "is_PrepareFramebuffer (PrepareFramebuffer n) = True"
| "is_PrepareFramebuffer nd = False"

definition wiring :: "job \<Rightarrow> string \<times> varying option \<times> varying \<times> bool" where
  "wiring j = (job_name j, job_input j, job_output j, is_PrepareFramebuffer (job_node j))"

definition forward_names :: "string list" where
  "forward_names =
     [''LightingModel'', ''ZoneRenderer'', ''PrepareFramebuffer'', ''PrepareStencil'',
      ''DrawOpaques'', ''DrawBackgroundDeferred'', ''DrawTransparents'', ''DrawMetaBounds'',
      ''DrawBounds'', ''DrawTransparentBounds'', ''DrawZones'', ''HUD'', ''Blit'']"

section \<open>Example inputs\<close>

definition viewport_800x600 :: ivec4 where
  "viewport_800x600 = \<lparr>vec_x = 0, vec_y = 0, vec_z = 800, vec_w = 600\<rparr>"

definition viewport_1920x1080 :: ivec4 where
  "viewport_1920x1080 = \<lparr>vec_x = 0, vec_y = 0, vec_z = 1920, vec_w = 1080\<rparr>"

text \<open>A world before the first frame: nothing allocated, nothing submitted.\<close>

definition example_world :: "(unit, item) world" where
  "example_world =
     \<lparr>args_viewport = viewport_800x600, args_batch = None, args_viewFrustum = (),
      args_context = [],
      gpu = \<lparr>textures = [], framebuffers = [], programs = [], pipelines = []\<rparr>\<rparr>"

text \<open>
  A graph as the spec counts it: a fade effect that adds no job of its own, a registry
  left as it is, a task that is empty but for the seven varyings of the buckets, which
  were allocated before it.
\<close>

definition example_fade :: "(unit, unit) fade_effect" where
  "example_fade =
     \<lparr>getBatchSetter = (), getItemUniformSetter = (), FadeEffect_build = (\<lambda>t v. t)\<rparr>"

definition example_buckets :: "bucket \<Rightarrow> varying" where
  "example_buckets b =
     Varying (case b of
        OPAQUE_SHAPE \<Rightarrow> 0 | TRANSPARENT_SHAPE \<Rightarrow> 1 | LIGHT \<Rightarrow> 2 | META \<Rightarrow> 3
      | OVERLAY_OPAQUE_SHAPE \<Rightarrow> 4 | OVERLAY_TRANSPARENT_SHAPE \<Rightarrow> 5 | BACKGROUND \<Rightarrow> 6)"

definition example_graph :: "job list" where
  "example_graph =
     task_jobs (RenderForwardTask_build (\<lambda>plumber bs is. plumber) example_fade
       \<lparr>task_jobs = [], task_varyings = 7\<rparr> example_buckets)"

text \<open>Outside nodes that submit nothing, and a frame with its three buckets empty.\<close>

definition example_external :: "(unit, unit, unit) external" where
  "example_external j inp w e = (External (), [], ())"

definition example_frame :: "(unit, unit, unit) frame" where
  "example_frame =
     \<lparr>frame_world = example_world,
      frame_varyings =
        (\<lambda>v. if v = 0 \<or> v = 1 \<or> v = 3 then Some (ItemBounds []) else None),
      frame_external = ()\<rparr>"

text \<open>
  A rendering that goes through the batch pointer, as the rendering of an item does: it
  records the draw calls of the items on the batch when \<open>args->_batch\<close> is set, and
  nothing when it is null.
\<close>

definition render_through_batch_pointer :: "('f, 'i) render_shapes" where
  "render_through_batch_pointer items maxDrawnItems s =
     (case s of (batch, plumber, w) \<Rightarrow>
        (case args_batch w of
           None \<Rightarrow> (batch, plumber, w)
         | Some p \<Rightarrow> (batch @ map drawItem items, plumber, w)))"

section \<open>The end-to-end scenario\<close>

text \<open>
  The scenario of section 8 of the spec: "empty opaque and transparent buckets, viewport
  800x600", one frame of the built graph.
\<close>





section \<open>Properties of PrepareFramebuffer\<close>

lemma PrepareFramebuffer_release_cases:
  "PrepareFramebuffer_release n w =
     (if (\<exists>fb. pf_framebuffer n = Some fb \<and> getSize (framebuffers (gpu w) ! fb) \<noteq> frameSize w)
      then n\<lparr>pf_framebuffer := None\<rparr> else n)"
  by (simp add: PrepareFramebuffer_release_def split: option.splits)

lemma PrepareFramebuffer_run_unfold:
  "PrepareFramebuffer_run n w =
     (case PrepareFramebuffer_allocate (PrepareFramebuffer_release n w) w of
        (n2, w2) \<Rightarrow> (n2, w2\<lparr>args_context := args_context w2 @
            [[enableStereo False, setViewportTransform (args_viewport w2),
              setStateScissorRect (args_viewport w2), setFramebuffer (pf_framebuffer n2),
              clearFramebuffer {BUFFER_COLOR0, BUFFER_DEPTH, BUFFER_STENCIL} (0, 0, 0, 1) 1 0 True]]\<rparr>,
            pf_framebuffer n2))"
  by (simp add: PrepareFramebuffer_run_def doInBatch_def PrepareFramebuffer_batch_def Let_def
      insert_commute split: prod.splits)

lemma PrepareFramebuffer_allocate_args:
  "args_viewport (snd (PrepareFramebuffer_allocate n w)) = args_viewport w \<and>
   args_context (snd (PrepareFramebuffer_allocate n w)) = args_context w \<and>
   args_batch (snd (PrepareFramebuffer_allocate n w)) = args_batch w \<and>
   args_viewFrustum (snd (PrepareFramebuffer_allocate n w)) = args_viewFrustum w \<and>
   pf_framebuffer (fst (PrepareFramebuffer_allocate n w)) \<noteq> None"
  by (simp add: PrepareFramebuffer_allocate_def Let_def split: option.splits prod.splits)

lemma PrepareFramebuffer_allocate_new:
  "pf_framebuffer n = None \<Longrightarrow> PrepareFramebuffer_allocate n w = (n', w') \<Longrightarrow>
   pf_framebuffer n' = Some (length (framebuffers (gpu w))) \<and>
   framebuffers (gpu w') = framebuffers (gpu w) @
     [\<lparr>fb_name = ''forward'',
       fb_renderBuffers = (\<lambda>slot. None)(0 := Some (length (textures (gpu w)))),
       fb_depthStencilBuffer = Some (Suc (length (textures (gpu w))), Element SCALAR UINT32 DEPTH_STENCIL),
       fb_width = fst (frameSize w), fb_height = snd (frameSize w)\<rparr>] \<and>
   textures (gpu w') = textures (gpu w) @
     [\<lparr>tex_format = COLOR_SRGBA_32, tex_width = fst (frameSize w), tex_height = snd (frameSize w),
       tex_mips = SINGLE_MIP, tex_sampler = Sampler FILTER_MIN_MAG_POINT\<rparr>,
      \<lparr>tex_format = Element SCALAR UINT32 DEPTH_STENCIL, tex_width = fst (frameSize w), tex_height = snd (frameSize w),
       tex_mips = SINGLE_MIP, tex_sampler = Sampler FILTER_MIN_MAG_POINT\<rparr>]"
  by (auto simp add: PrepareFramebuffer_allocate_def Framebuffer_create_def Texture_createRenderBuffer_def
      setRenderBuffer_def setDepthStencilBuffer_def Let_def nth_append)

lemma PrepareFramebuffer_allocate_keep:
  "pf_framebuffer n = Some fb \<Longrightarrow> PrepareFramebuffer_allocate n w = (n, w)"
  by (simp add: PrepareFramebuffer_allocate_def)

lemma PrepareFramebuffer_run_reuse:
  assumes "pf_framebuffer n = Some fb" "getSize (framebuffers (gpu w) ! fb) = frameSize w"
    and "PrepareFramebuffer_run n w = (n', w', out)"
  shows "n' = n \<and> gpu w' = gpu w \<and> out = Some fb"
  using assms by (auto simp add: PrepareFramebuffer_run_unfold PrepareFramebuffer_release_cases PrepareFramebuffer_allocate_keep)

lemma PrepareFramebuffer_run_fresh:
  assumes "pf_framebuffer n = None \<or>
           (\<exists>fb. pf_framebuffer n = Some fb \<and> getSize (framebuffers (gpu w) ! fb) \<noteq> frameSize w)"
    and "PrepareFramebuffer_run n w = (n', w', out)"
  shows "pf_framebuffer n' = Some (length (framebuffers (gpu w))) \<and>
   out = pf_framebuffer n' \<and>
   framebuffers (gpu w') = framebuffers (gpu w) @
     [\<lparr>fb_name = ''forward'',
       fb_renderBuffers = (\<lambda>slot. None)(0 := Some (length (textures (gpu w)))),
       fb_depthStencilBuffer = Some (Suc (length (textures (gpu w))), Element SCALAR UINT32 DEPTH_STENCIL),
       fb_width = fst (frameSize w), fb_height = snd (frameSize w)\<rparr>] \<and>
   textures (gpu w') = textures (gpu w) @
     [\<lparr>tex_format = COLOR_SRGBA_32, tex_width = fst (frameSize w), tex_height = snd (frameSize w),
       tex_mips = SINGLE_MIP, tex_sampler = Sampler FILTER_MIN_MAG_POINT\<rparr>,
      \<lparr>tex_format = Element SCALAR UINT32 DEPTH_STENCIL, tex_width = fst (frameSize w), tex_height = snd (frameSize w),
       tex_mips = SINGLE_MIP, tex_sampler = Sampler FILTER_MIN_MAG_POINT\<rparr>]"
proof -
  let ?n1 = "PrepareFramebuffer_release n w"
  from assms(1) have r: "pf_framebuffer ?n1 = None"
    by (auto simp add: PrepareFramebuffer_release_cases)
  obtain n2 w2 where a: "PrepareFramebuffer_allocate ?n1 w = (n2, w2)"
    by (cases "PrepareFramebuffer_allocate ?n1 w")
  from assms(2) a have e: "n' = n2" "gpu w' = gpu w2" "out = pf_framebuffer n2"
    by (auto simp add: PrepareFramebuffer_run_unfold)
  from PrepareFramebuffer_allocate_new [OF r a] e show ?thesis by simp
qed

lemma PrepareFramebuffer_run_size:
  assumes "pf_valid n w" and "PrepareFramebuffer_run n w = (n', w', out)"
  shows "pf_valid n' w' \<and> owned_size (n', w') = Some (frameSize w)"
proof (cases "pf_framebuffer n = None \<or>
           (\<exists>fb. pf_framebuffer n = Some fb \<and> getSize (framebuffers (gpu w) ! fb) \<noteq> frameSize w)")
  case True
  from PrepareFramebuffer_run_fresh [OF True assms(2)] show ?thesis
    by (simp add: pf_valid_def owned_size_def getSize_def)
next
  case False
  then obtain fb where fb: "pf_framebuffer n = Some fb"
      "getSize (framebuffers (gpu w) ! fb) = frameSize w" by auto
  from PrepareFramebuffer_run_reuse [OF fb assms(2)] fb assms(1) show ?thesis
    by (simp add: pf_valid_def owned_size_def)
qed

lemma frameSize_args_viewport [simp]:
  "frameSize (w\<lparr>args_viewport := vp\<rparr>) = (vec_z vp, vec_w vp)"
  by (simp add: frameSize_def)

lemma pf_valid_args_viewport [simp]: "pf_valid n (w\<lparr>args_viewport := vp\<rparr>) = pf_valid n w"
  by (simp add: pf_valid_def split: option.splits)

lemma length_PrepareFramebuffer_frames [simp]: "length (PrepareFramebuffer_frames n w vps) = length vps"
  by (induction vps arbitrary: n w) (auto split: prod.splits)

lemma PrepareFramebuffer_frames_nth:
  "pf_valid n w \<Longrightarrow> k < length vps \<Longrightarrow>
   \<exists>n0 w0 n1 w1 out.
     ((n, w) # PrepareFramebuffer_frames n w vps) ! k = (n0, w0) \<and>
     PrepareFramebuffer_frames n w vps ! k = (n1, w1) \<and>
     pf_valid n0 w0 \<and>
     PrepareFramebuffer_run n0 (w0\<lparr>args_viewport := vps ! k\<rparr>) = (n1, w1, out)"
proof (induction vps arbitrary: n w k)
  case Nil
  then show ?case by simp
next
  case (Cons vp vps)
  obtain n' w' out where r: "PrepareFramebuffer_run n (w\<lparr>args_viewport := vp\<rparr>) = (n', w', out)"
    by (cases "PrepareFramebuffer_run n (w\<lparr>args_viewport := vp\<rparr>)")
  with Cons.prems(1) have v: "pf_valid n' w'"
    using PrepareFramebuffer_run_size [of n "w\<lparr>args_viewport := vp\<rparr>" n' w' out] by simp
  show ?case
  proof (cases k)
    case 0
    with r Cons.prems(1) show ?thesis by simp
  next
    case (Suc j)
    with Cons.prems(2) have "j < length vps" by simp
    from Cons.IH [OF v this] r Suc show ?thesis by simp
  qed
qed

text \<open>
  C2: for every sequence of viewports across frames, starting with a new node, the
  framebuffer that the node owns after a run has the size of the viewport of that run;
  and whenever the framebuffer owned before the run has another size, the node owns a
  newly allocated framebuffer after it, with two newly allocated textures as its colour
  and depth/stencil attachments, while every framebuffer and texture that existed before
  the run, the old framebuffer among them, is in the store as it was: nothing is resized
  in place.
\<close>

theorem PrepareFramebuffer_size_follows_viewport:
  assumes "k < length vps"
  shows
   "(let before = ((\<lparr>pf_framebuffer = None\<rparr>, w) #
                     PrepareFramebuffer_frames \<lparr>pf_framebuffer = None\<rparr> w vps) ! k;
         after = PrepareFramebuffer_frames \<lparr>pf_framebuffer = None\<rparr> w vps ! k;
         extent = (vec_z (vps ! k), vec_w (vps ! k))
     in owned_size after = Some extent \<and>
        (\<forall>old. pf_framebuffer (fst before) = Some old \<and>
               getSize (framebuffers (gpu (snd before)) ! old) \<noteq> extent \<longrightarrow>
           old < length (framebuffers (gpu (snd before))) \<and>
           pf_framebuffer (fst after) = Some (length (framebuffers (gpu (snd before)))) \<and>
           framebuffers (gpu (snd after)) = framebuffers (gpu (snd before)) @
             [\<lparr>fb_name = ''forward'',
               fb_renderBuffers = (\<lambda>slot. None)(0 := Some (length (textures (gpu (snd before))))),
               fb_depthStencilBuffer =
                 Some (Suc (length (textures (gpu (snd before)))), Element SCALAR UINT32 DEPTH_STENCIL),
               fb_width = fst extent, fb_height = snd extent\<rparr>] \<and>
           textures (gpu (snd after)) = textures (gpu (snd before)) @
             [\<lparr>tex_format = COLOR_SRGBA_32, tex_width = fst extent, tex_height = snd extent,
               tex_mips = SINGLE_MIP, tex_sampler = Sampler FILTER_MIN_MAG_POINT\<rparr>,
              \<lparr>tex_format = Element SCALAR UINT32 DEPTH_STENCIL, tex_width = fst extent,
               tex_height = snd extent, tex_mips = SINGLE_MIP,
               tex_sampler = Sampler FILTER_MIN_MAG_POINT\<rparr>]))"
proof -
  have v0: "pf_valid \<lparr>pf_framebuffer = None\<rparr> w" by (simp add: pf_valid_def)
  from PrepareFramebuffer_frames_nth [OF v0 assms] obtain n0 w0 n1 w1 out where
    b: "((\<lparr>pf_framebuffer = None\<rparr>, w) #
           PrepareFramebuffer_frames \<lparr>pf_framebuffer = None\<rparr> w vps) ! k = (n0, w0)" and
    a: "PrepareFramebuffer_frames \<lparr>pf_framebuffer = None\<rparr> w vps ! k = (n1, w1)" and
    v: "pf_valid n0 w0" and
    r: "PrepareFramebuffer_run n0 (w0\<lparr>args_viewport := vps ! k\<rparr>) = (n1, w1, out)"
    by blast
  have s: "owned_size (n1, w1) = Some (vec_z (vps ! k), vec_w (vps ! k))"
    using PrepareFramebuffer_run_size [OF _ r] v by simp
  have f: "old < length (framebuffers (gpu w0)) \<and>
       pf_framebuffer n1 = Some (length (framebuffers (gpu w0))) \<and>
       framebuffers (gpu w1) = framebuffers (gpu w0) @
             [\<lparr>fb_name = ''forward'',
               fb_renderBuffers = (\<lambda>slot. None)(0 := Some (length (textures (gpu w0)))),
               fb_depthStencilBuffer =
                 Some (Suc (length (textures (gpu w0))), Element SCALAR UINT32 DEPTH_STENCIL),
               fb_width = vec_z (vps ! k), fb_height = vec_w (vps ! k)\<rparr>] \<and>
       textures (gpu w1) = textures (gpu w0) @
             [\<lparr>tex_format = COLOR_SRGBA_32, tex_width = vec_z (vps ! k), tex_height = vec_w (vps ! k),
               tex_mips = SINGLE_MIP, tex_sampler = Sampler FILTER_MIN_MAG_POINT\<rparr>,
              \<lparr>tex_format = Element SCALAR UINT32 DEPTH_STENCIL, tex_width = vec_z (vps ! k),
               tex_height = vec_w (vps ! k), tex_mips = SINGLE_MIP,
               tex_sampler = Sampler FILTER_MIN_MAG_POINT\<rparr>]"
    if o: "pf_framebuffer n0 = Some old"
      "getSize (framebuffers (gpu w0) ! old) \<noteq> (vec_z (vps ! k), vec_w (vps ! k))" for old
  proof -
    from o v have "old < length (framebuffers (gpu w0))" by (simp add: pf_valid_def)
    moreover have "pf_framebuffer n0 = None \<or>
           (\<exists>fb. pf_framebuffer n0 = Some fb \<and>
              getSize (framebuffers (gpu (w0\<lparr>args_viewport := vps ! k\<rparr>)) ! fb)
                \<noteq> frameSize (w0\<lparr>args_viewport := vps ! k\<rparr>))"
      using o by simp
    from PrepareFramebuffer_run_fresh [OF this r] have
      "pf_framebuffer n1 = Some (length (framebuffers (gpu w0)))"
      "framebuffers (gpu w1) = framebuffers (gpu w0) @
             [\<lparr>fb_name = ''forward'',
               fb_renderBuffers = (\<lambda>slot. None)(0 := Some (length (textures (gpu w0)))),
               fb_depthStencilBuffer =
                 Some (Suc (length (textures (gpu w0))), Element SCALAR UINT32 DEPTH_STENCIL),
               fb_width = vec_z (vps ! k), fb_height = vec_w (vps ! k)\<rparr>]"
      "textures (gpu w1) = textures (gpu w0) @
             [\<lparr>tex_format = COLOR_SRGBA_32, tex_width = vec_z (vps ! k), tex_height = vec_w (vps ! k),
               tex_mips = SINGLE_MIP, tex_sampler = Sampler FILTER_MIN_MAG_POINT\<rparr>,
              \<lparr>tex_format = Element SCALAR UINT32 DEPTH_STENCIL, tex_width = vec_z (vps ! k),
               tex_height = vec_w (vps ! k), tex_mips = SINGLE_MIP,
               tex_sampler = Sampler FILTER_MIN_MAG_POINT\<rparr>]"
      by simp_all
    ultimately show ?thesis by simp
  qed
  show ?thesis
    unfolding Let_def b a using s f by simp
qed

theorem PrepareFramebuffer_size_follows_viewport_witness:
  "(2::nat) < length [viewport_800x600, viewport_800x600, viewport_1920x1080] \<and>
   owned_size (PrepareFramebuffer_frames \<lparr>pf_framebuffer = None\<rparr> (example_world)
      [viewport_800x600, viewport_800x600, viewport_1920x1080] ! 2) = Some (1920, 1080) \<and>
   pf_framebuffer (fst (PrepareFramebuffer_frames \<lparr>pf_framebuffer = None\<rparr> (example_world)
      [viewport_800x600, viewport_800x600, viewport_1920x1080] ! 1)) = Some 0 \<and>
   pf_framebuffer (fst (PrepareFramebuffer_frames \<lparr>pf_framebuffer = None\<rparr> (example_world)
      [viewport_800x600, viewport_800x600, viewport_1920x1080] ! 2)) = Some 1"
  using PrepareFramebuffer_size_follows_viewport [of 2 "[viewport_800x600, viewport_800x600, viewport_1920x1080]" "example_world"]
  by (simp add: example_world_def viewport_800x600_def viewport_1920x1080_def PrepareFramebuffer_run_unfold PrepareFramebuffer_release_cases
      PrepareFramebuffer_allocate_def Framebuffer_create_def Texture_createRenderBuffer_def
      setRenderBuffer_def setDepthStencilBuffer_def Let_def getSize_def frameSize_def)

text \<open>
  C4: every run of \<open>PrepareFramebuffer\<close>, whether it kept its framebuffer or made a new
  one, submits exactly one batch to the context, and the batch disables stereo, sets the
  viewport transform and the scissor rectangle to the viewport, binds the framebuffer
  that the node owns after the run, which is not null, and clears colour, depth and
  stencil in one call.
\<close>

theorem PrepareFramebuffer_run_one_batch:
  "(let after = PrepareFramebuffer_run n w
    in pf_framebuffer (fst after) \<noteq> None \<and>
       args_context (fst (snd after)) = args_context w @
        [[enableStereo False,
          setViewportTransform (args_viewport w),
          setStateScissorRect (args_viewport w),
          setFramebuffer (pf_framebuffer (fst after)),
          clearFramebuffer {BUFFER_COLOR0, BUFFER_DEPTH, BUFFER_STENCIL} (0, 0, 0, 1) 1 0 True]])"
  using PrepareFramebuffer_allocate_args [of "PrepareFramebuffer_release n w" w]
  by (auto simp add: PrepareFramebuffer_run_unfold Let_def split: prod.splits)

text \<open>
  C9: the one clear that a run of \<open>PrepareFramebuffer\<close> records has the same values
  whatever the node and the world are: colour (0, 0, 0, 1), depth 1, stencil 0, and the
  scissor enabled.
\<close>

theorem PrepareFramebuffer_clear_values:
  "filter is_clear (last (args_context (fst (snd (PrepareFramebuffer_run n w))))) =
     [clearFramebuffer {BUFFER_COLOR0, BUFFER_DEPTH, BUFFER_STENCIL} (0, 0, 0, 1) 1 0 True]"
  by (simp add: PrepareFramebuffer_run_unfold split: prod.splits)

section \<open>Properties of Stencil\<close>

lemma Stencil_run_first:
  "stencil_pipeline n = None \<Longrightarrow>
   Stencil_run n w =
     (n\<lparr>stencil_pipeline := Some (length (pipelines (gpu w)))\<rparr>,
      w\<lparr>args_batch := None,
        args_context := args_context w @ [stencil_commands (args_viewport w) (length (pipelines (gpu w)))],
        gpu := (gpu w)\<lparr>
          programs := programs (gpu w) @
            [\<lparr>program_vs = getDrawUnitQuadTexcoordVS, program_ps = createPixel nop_frag,
              program_made = True\<rparr>],
          pipelines := pipelines (gpu w) @
            [\<lparr>pipeline_program = length (programs (gpu w)),
              pipeline_state = [setDepthTest True False LESS_EQUAL, PrepareStencil_drawBackground]\<rparr>]\<rparr>\<rparr>)"
  by (simp add: Stencil_run_def doInBatch_def Stencil_batch_def Stencil_getPipeline_def
      Shader_createProgram_def Shader_makeProgram_def Pipeline_create_def Let_def
      stencil_commands_def)

lemma Stencil_run_cached:
  "stencil_pipeline n = Some pl \<Longrightarrow>
   Stencil_run n w =
     (n, w\<lparr>args_batch := None,
           args_context := args_context w @ [stencil_commands (args_viewport w) pl]\<rparr>)"
  by (simp add: Stencil_run_def doInBatch_def Stencil_batch_def Stencil_getPipeline_def
      Let_def stencil_commands_def)

lemma Stencil_runs_cached:
  "stencil_pipeline n = Some pl \<Longrightarrow>
   Stencil_runs k n w =
     (n, w\<lparr>args_batch := (if k = 0 then args_batch w else None),
           args_context := args_context w @ replicate k (stencil_commands (args_viewport w) pl)\<rparr>)"
proof (induction k arbitrary: w)
  case 0
  then show ?case by simp
next
  case (Suc k)
  show ?case
    by (simp add: Stencil_run_cached [OF Suc.prems] Suc.IH [OF Suc.prems]
        replicate_append_same)
qed

text \<open>
  C3: for every N of at least 1, N runs of \<open>Stencil\<close> on a node that has no pipeline yet
  construct one program and one pipeline: the store has exactly one program and one
  pipeline more than before, the pipeline has the depth test enabled, depth writes
  disabled and the comparison less-or-equal, the node caches it, and each of the N
  batches binds that same pipeline.
\<close>

theorem Stencil_pipeline_built_once:
  assumes "1 \<le> N" and "stencil_pipeline n = None"
  shows "(let after = Stencil_runs N n w;
              pl = length (pipelines (gpu w))
          in stencil_pipeline (fst after) = Some pl \<and>
             programs (gpu (snd after)) = programs (gpu w) @
               [\<lparr>program_vs = getDrawUnitQuadTexcoordVS, program_ps = createPixel nop_frag,
                 program_made = True\<rparr>] \<and>
             pipelines (gpu (snd after)) = pipelines (gpu w) @
               [\<lparr>pipeline_program = length (programs (gpu w)),
                 pipeline_state =
                   [setDepthTest True False LESS_EQUAL, PrepareStencil_drawBackground]\<rparr>] \<and>
             args_context (snd after) = args_context w @
               replicate N
                 [enableStereo False, setViewportTransform (args_viewport w),
                  setStateScissorRect (args_viewport w), setPipeline (Some pl),
                  draw TRIANGLE_STRIP 4])"
proof -
  from assms(1) obtain k where N: "N = Suc k" by (cases N) auto
  let ?n1 = "n\<lparr>stencil_pipeline := Some (length (pipelines (gpu w)))\<rparr>"
  have c: "stencil_pipeline ?n1 = Some (length (pipelines (gpu w)))" by simp
  show ?thesis
    unfolding N
    by (simp add: Stencil_run_first [OF assms(2)] Stencil_runs_cached [OF c] Let_def
        stencil_commands_def replicate_append_same)
qed

theorem Stencil_pipeline_built_once_witness:
  "(1::nat) \<le> 3 \<and> stencil_pipeline \<lparr>stencil_pipeline = None\<rparr> = None \<and>
   stencil_pipeline (fst (Stencil_runs 3 \<lparr>stencil_pipeline = None\<rparr> example_world)) = Some 0 \<and>
   length (programs (gpu (snd (Stencil_runs 3 \<lparr>stencil_pipeline = None\<rparr> example_world)))) = 1 \<and>
   length (pipelines (gpu (snd (Stencil_runs 3 \<lparr>stencil_pipeline = None\<rparr> example_world)))) = 1 \<and>
   length (args_context (snd (Stencil_runs 3 \<lparr>stencil_pipeline = None\<rparr> example_world))) = 3"
  using Stencil_pipeline_built_once [of 3 "\<lparr>stencil_pipeline = None\<rparr>" example_world]
  by (simp add: example_world_def Let_def)

section \<open>Properties of Draw\<close>

text \<open>
  C6: every run of \<open>Draw\<close> opens one batch and submits it, and the rendering of the
  items starts on a batch that holds exactly three commands: the projection transform
  evaluated from the view frustum of the render arguments, the view transform evaluated
  from the same frustum, and the model transform reset to the identity.
\<close>

theorem Draw_run_sets_transforms:
  "Draw_run rsss plumber items w =
     (case rsss items (- 1)
        ([setProjectionTransform (evalProjectionMatrix (args_viewFrustum w)),
          setViewTransform (evalViewTransform (args_viewFrustum w)),
          setModelTransform Transform],
         plumber, w\<lparr>args_batch := Some (length (args_context w))\<rparr>) of
        (batch, plumber', w') \<Rightarrow>
          (plumber', w'\<lparr>args_context := args_context w' @ [batch], args_batch := None\<rparr>))"
  by (simp add: Draw_run_def doInBatch_def Draw_batch_def Draw_setup_def Let_def
      split: prod.splits)

lemma Draw_run_dispatch:
  "Draw_run renderStateSortShapes plumber items w =
     (plumber,
      w\<lparr>args_context := args_context w @
           [[setProjectionTransform (evalProjectionMatrix (args_viewFrustum w)),
             setViewTransform (evalViewTransform (args_viewFrustum w)),
             setModelTransform Transform] @
            concat (map (render_group plumber) (shape_groups items))],
        args_batch := None\<rparr>)"
  by (simp add: Draw_run_def doInBatch_def Draw_batch_def Draw_setup_def Let_def
      renderStateSortShapes_def)

lemma filter_render_group:
  "filter is_bind_or_draw (render_group plumber g) = render_group plumber g"
  by (simp add: render_group_def filter_id_conv split: option.splits) auto

lemma filter_render_groups:
  "filter is_bind_or_draw (concat (map (render_group plumber) gs)) =
   concat (map (render_group plumber) gs)"
  by (induction gs) (simp_all add: filter_render_group)

text \<open>
  The dispatch on a bucket of five items with three keys, one of them without a
  pipeline in the registry: two binds, the items of a key together, the item of the
  missing key skipped.
\<close>

lemma dispatch_example:
  "concat (map (render_group (\<lambda>key. if key = 7 then Some 0 else if key = 3 then Some 1 else None))
     (shape_groups
        [\<lparr>item_id = 10, item_key = 7\<rparr>, \<lparr>item_id = 11, item_key = 3\<rparr>,
         \<lparr>item_id = 12, item_key = 7\<rparr>, \<lparr>item_id = 13, item_key = 5\<rparr>,
         \<lparr>item_id = 14, item_key = 3\<rparr>])) =
   [setPipeline (Some 1),
    drawItem \<lparr>item_id = 11, item_key = 3\<rparr>, drawItem \<lparr>item_id = 14, item_key = 3\<rparr>,
    setPipeline (Some 0),
    drawItem \<lparr>item_id = 10, item_key = 7\<rparr>, drawItem \<lparr>item_id = 12, item_key = 7\<rparr>]"
  by (simp add: shape_groups_def render_group_def)

text \<open>
  C7: with the dispatch of section 4.3 of the spec, the pipeline binds and draw calls
  that a run of \<open>Draw\<close> records are a function of the items of the bucket, in their
  order, and of the registry alone, whatever the world is; the run leaves the registry
  as it was, and two runs in a row on the same items submit two equal batches.
\<close>

theorem Draw_deterministic:
  "filter is_bind_or_draw
     (last (args_context (snd (Draw_run renderStateSortShapes plumber items w)))) =
   concat (map (render_group plumber) (shape_groups items)) \<and>
   fst (Draw_run renderStateSortShapes plumber items w) = plumber \<and>
   (case Draw_run renderStateSortShapes plumber items w of
      (plumber1, w1) \<Rightarrow>
        (case Draw_run renderStateSortShapes plumber1 items w1 of
           (plumber2, w2) \<Rightarrow>
             (\<exists>batch. args_context w2 = args_context w @ [batch, batch])))"
  by (simp add: Draw_run_dispatch filter_render_groups)

section \<open>The batch pointer of the render arguments\<close>

lemma Draw_run_batch_null: "args_batch (snd (Draw_run rsss plumber items w)) = None"
  by (simp add: Draw_run_def split: prod.splits)

lemma Stencil_run_batch_null: "args_batch (snd (Stencil_run n w)) = None"
  by (simp add: Stencil_run_def split: prod.splits)

lemma DrawBackground_run_batch_null: "args_batch (DrawBackground_run ri background w) = None"
  by (simp add: DrawBackground_run_def split: prod.splits)

lemma PrepareFramebuffer_run_batch_same:
  "args_batch (fst (snd (PrepareFramebuffer_run n w))) = args_batch w"
  using PrepareFramebuffer_allocate_args [of "PrepareFramebuffer_release n w" w]
  by (auto simp add: PrepareFramebuffer_run_unfold split: prod.splits)

lemma run_call_batch_null:
  "args_batch (snd (snd s)) = None \<Longrightarrow> args_batch (snd (snd (run_call c s))) = None"
proof (cases s)
  case (fields pf st w)
  assume "args_batch (snd (snd s)) = None"
  with fields show ?thesis
    using Stencil_run_batch_null [of st w] PrepareFramebuffer_run_batch_same [of pf w]
    by (cases c)
      (auto simp add: Draw_run_batch_null DrawBackground_run_batch_null split: prod.splits)
qed

lemma run_calls_batch_null:
  "args_batch (snd (snd s)) = None \<Longrightarrow> args_batch (snd (snd (run_calls cs s))) = None"
  by (induction cs arbitrary: s) (simp_all add: run_call_batch_null)

text \<open>
  C10: \<open>Draw::run\<close>, \<open>Stencil::run\<close> and \<open>DrawBackground::run\<close> each open a batch, set
  \<open>args->_batch\<close> to it for the scope of the batch, and leave the pointer null when
  they return, whatever it was before and whatever the rendering they call does. The
  rendering that \<open>Draw::run\<close> and \<open>DrawBackground::run\<close> call is handed render arguments
  whose \<open>_batch\<close> is the open batch, the one that the run submits next; \<open>Stencil::run\<close>
  is its scope, which ends with the pointer on the open batch, followed by the
  submission and the reset. When the pointer is null to begin with, it is null after any
  sequence of calls of the \<open>run\<close> operations of the file.
\<close>

theorem runs_restore_batch_pointer:
  "Draw_run rsss plumber items w =
     (case rsss items (- 1)
        ([setProjectionTransform (evalProjectionMatrix (args_viewFrustum w)),
          setViewTransform (evalViewTransform (args_viewFrustum w)),
          setModelTransform Transform],
         plumber, w\<lparr>args_batch := Some (length (args_context w))\<rparr>) of
        (batch, plumber', w') \<Rightarrow>
          (plumber', w'\<lparr>args_context := args_context w' @ [batch], args_batch := None\<rparr>)) \<and>
   DrawBackground_run ri background w =
     (case ri background
        ([enableSkybox True,
          setViewportTransform (args_viewport w),
          setStateScissorRect (args_viewport w),
          setProjectionTransform (evalProjectionMatrix (args_viewFrustum w)),
          setViewTransform (evalViewTransform (args_viewFrustum w))],
         (), w\<lparr>args_batch := Some (length (args_context w))\<rparr>) of
        (batch, u, w') \<Rightarrow> w'\<lparr>args_context := args_context w' @ [batch], args_batch := None\<rparr>) \<and>
   Stencil_run n w =
     (case Stencil_batch (length (args_context w)) ([], n, w) of
        (batch, n', w') \<Rightarrow>
          (n', w'\<lparr>args_context := args_context w' @ [batch], args_batch := None\<rparr>)) \<and>
   args_batch (snd (snd (Stencil_batch (length (args_context w)) ([], n, w)))) =
     Some (length (args_context w)) \<and>
   args_batch (snd (Draw_run rsss plumber items w)) = None \<and>
   args_batch (snd (Stencil_run n w)) = None \<and>
   args_batch (DrawBackground_run ri background w) = None \<and>
   (args_batch w = None \<longrightarrow> args_batch (snd (snd (run_calls calls (pf, n, w)))) = None)"
proof -
  have d: "Draw_run rsss plumber items w =
     (case rsss items (- 1)
        ([setProjectionTransform (evalProjectionMatrix (args_viewFrustum w)),
          setViewTransform (evalViewTransform (args_viewFrustum w)),
          setModelTransform Transform],
         plumber, w\<lparr>args_batch := Some (length (args_context w))\<rparr>) of
        (batch, plumber', w') \<Rightarrow>
          (plumber', w'\<lparr>args_context := args_context w' @ [batch], args_batch := None\<rparr>))"
    by (simp add: Draw_run_def doInBatch_def Draw_batch_def Draw_setup_def Let_def
        split: prod.splits)
  have b: "DrawBackground_run ri background w =
     (case ri background
        ([enableSkybox True,
          setViewportTransform (args_viewport w),
          setStateScissorRect (args_viewport w),
          setProjectionTransform (evalProjectionMatrix (args_viewFrustum w)),
          setViewTransform (evalViewTransform (args_viewFrustum w))],
         (), w\<lparr>args_batch := Some (length (args_context w))\<rparr>) of
        (batch, u, w') \<Rightarrow> w'\<lparr>args_context := args_context w' @ [batch], args_batch := None\<rparr>)"
    by (simp add: DrawBackground_run_def doInBatch_def DrawBackground_batch_def
        DrawBackground_setup_def Let_def split: prod.splits)
  have s: "Stencil_run n w =
     (case Stencil_batch (length (args_context w)) ([], n, w) of
        (batch, n', w') \<Rightarrow>
          (n', w'\<lparr>args_context := args_context w' @ [batch], args_batch := None\<rparr>))"
    by (simp add: Stencil_run_def doInBatch_def split: prod.splits)
  have p: "args_batch (snd (snd (Stencil_batch (length (args_context w)) ([], n, w)))) =
     Some (length (args_context w))"
    by (simp add: Stencil_batch_def Let_def split: prod.splits)
  have c: "args_batch w = None \<longrightarrow>
      args_batch (snd (snd (run_calls calls (pf, n, w)))) = None"
    using run_calls_batch_null [of "(pf, n, w)" calls] by simp
  show ?thesis
    by (intro conjI)
      (rule d, rule b, rule s, rule p, rule Draw_run_batch_null, rule Stencil_run_batch_null,
       rule DrawBackground_run_batch_null, rule c)
qed

theorem runs_restore_batch_pointer_witness:
  "args_batch example_world = None \<and>
   args_context (snd (Draw_run render_through_batch_pointer (\<lambda>key. None)
      [\<lparr>item_id = 1, item_key = 0\<rparr>] example_world)) =
     [[setProjectionTransform (evalProjectionMatrix ()),
       setViewTransform (evalViewTransform ()),
       setModelTransform Transform,
       drawItem \<lparr>item_id = 1, item_key = 0\<rparr>]] \<and>
   args_batch (snd (Draw_run render_through_batch_pointer (\<lambda>key. None)
      [\<lparr>item_id = 1, item_key = 0\<rparr>] example_world)) = None \<and>
   args_batch (snd (snd (run_calls
      [Call_Stencil, Call_PrepareFramebuffer,
       Call_Draw render_through_batch_pointer (\<lambda>key. None) [\<lparr>item_id = 1, item_key = 0\<rparr>],
       Call_DrawBackground (\<lambda>background s. s) []]
      (\<lparr>pf_framebuffer = None\<rparr>, \<lparr>stencil_pipeline = None\<rparr>, example_world)))) = None"
proof -
  let ?items = "[\<lparr>item_id = 1, item_key = 0\<rparr>]"
  note t = runs_restore_batch_pointer
    [of render_through_batch_pointer "\<lambda>key. None" ?items example_world
        "\<lambda>background s. s" "[]" "\<lparr>stencil_pipeline = None\<rparr>"
        "[Call_Stencil, Call_PrepareFramebuffer,
          Call_Draw render_through_batch_pointer (\<lambda>key. None) ?items,
          Call_DrawBackground (\<lambda>background s. s) []]"
        "\<lparr>pf_framebuffer = None\<rparr>"]
  have 1: "args_batch example_world = None" by (simp add: example_world_def)
  from t have e: "Draw_run render_through_batch_pointer (\<lambda>key. None) ?items example_world =
     (case render_through_batch_pointer ?items (- 1)
        ([setProjectionTransform (evalProjectionMatrix (args_viewFrustum example_world)),
          setViewTransform (evalViewTransform (args_viewFrustum example_world)),
          setModelTransform Transform],
         \<lambda>key. None,
         example_world\<lparr>args_batch := Some (length (args_context example_world))\<rparr>) of
        (batch, plumber', w') \<Rightarrow>
          (plumber', w'\<lparr>args_context := args_context w' @ [batch], args_batch := None\<rparr>))"
    by (rule conjunct1)
  have 2: "args_context (snd (Draw_run render_through_batch_pointer (\<lambda>key. None)
      ?items example_world)) =
     [[setProjectionTransform (evalProjectionMatrix ()),
       setViewTransform (evalViewTransform ()),
       setModelTransform Transform,
       drawItem \<lparr>item_id = 1, item_key = 0\<rparr>]]"
    unfolding e by (simp add: example_world_def render_through_batch_pointer_def)
  have 3: "args_batch (snd (Draw_run render_through_batch_pointer (\<lambda>key. None)
      ?items example_world)) = None"
    unfolding e by (simp add: render_through_batch_pointer_def)
  from t 1 have 4: "args_batch (snd (snd (run_calls
      [Call_Stencil, Call_PrepareFramebuffer,
       Call_Draw render_through_batch_pointer (\<lambda>key. None) ?items,
       Call_DrawBackground (\<lambda>background s. s) []]
      (\<lparr>pf_framebuffer = None\<rparr>, \<lparr>stencil_pipeline = None\<rparr>, example_world)))) = None"
    by blast
  from 1 2 3 4 show ?thesis by (intro conjI)
qed

section \<open>Properties of the task graph\<close>

text \<open>
  C1: whatever the task, the fade effect and the input are, \<open>build\<close> appends thirteen
  jobs to what the fade effect's own \<open>build\<close> left in the task, in this order:
  LightingModel, ZoneRenderer, PrepareFramebuffer, PrepareStencil, DrawOpaques,
  DrawBackgroundDeferred, DrawTransparents, DrawMetaBounds, DrawBounds,
  DrawTransparentBounds, DrawZones, HUD and, last, Blit. The output varying of
  PrepareFramebuffer is the input of PrepareStencil and of Blit, the varying of the
  metas bucket is the input of ZoneRenderer, and the output varying of ZoneRenderer is
  the input of DrawZones.
\<close>

theorem build_adds_nodes_in_order:
  "task_jobs (RenderForwardTask_build initForwardPipelines fadeEffect task items) =
     (let t0 = FadeEffect_build fadeEffect task (items OPAQUE_SHAPE);
          n = task_varyings t0;
          shapePlumber = initForwardPipelines (\<lambda>key. None)
            (getBatchSetter fadeEffect) (getItemUniformSetter fadeEffect);
          lightingModel = Varying n;
          zones = Varying (n + 1);
          framebuffer = Varying (n + 2)
      in task_jobs t0 @
        [\<lparr>job_name = ''LightingModel'', job_node = MakeLightingModel,
           job_input = None, job_output = lightingModel\<rparr>,
         \<lparr>job_name = ''ZoneRenderer'', job_node = ZoneRendererTask,
           job_input = Some (items META), job_output = zones\<rparr>,
         \<lparr>job_name = ''PrepareFramebuffer'',
           job_node = PrepareFramebuffer \<lparr>pf_framebuffer = None\<rparr>,
           job_input = None, job_output = framebuffer\<rparr>,
         \<lparr>job_name = ''PrepareStencil'',
           job_node = PrepareStencil \<lparr>stencil_pipeline = None\<rparr>,
           job_input = Some framebuffer, job_output = Varying (n + 3)\<rparr>,
         \<lparr>job_name = ''DrawOpaques'', job_node = Draw shapePlumber,
           job_input = Some (items OPAQUE_SHAPE), job_output = Varying (n + 4)\<rparr>,
         \<lparr>job_name = ''DrawBackgroundDeferred'', job_node = DrawBackgroundStage,
           job_input = Some lightingModel, job_output = Varying (n + 5)\<rparr>,
         \<lparr>job_name = ''DrawTransparents'', job_node = Draw shapePlumber,
           job_input = Some (items TRANSPARENT_SHAPE), job_output = Varying (n + 6)\<rparr>,
         \<lparr>job_name = ''DrawMetaBounds'', job_node = DrawBounds,
           job_input = Some (items META), job_output = Varying (n + 7)\<rparr>,
         \<lparr>job_name = ''DrawBounds'', job_node = DrawBounds,
           job_input = Some (items OPAQUE_SHAPE), job_output = Varying (n + 8)\<rparr>,
         \<lparr>job_name = ''DrawTransparentBounds'', job_node = DrawBounds,
           job_input = Some (items TRANSPARENT_SHAPE), job_output = Varying (n + 9)\<rparr>,
         \<lparr>job_name = ''DrawZones'', job_node = DrawBounds,
           job_input = Some zones, job_output = Varying (n + 10)\<rparr>,
         \<lparr>job_name = ''HUD'', job_node = CompositeHUD,
           job_input = None, job_output = Varying (n + 11)\<rparr>,
         \<lparr>job_name = ''Blit'', job_node = Blit,
           job_input = Some framebuffer, job_output = Varying (n + 12)\<rparr>])"
  by (simp add: RenderForwardTask_build_def addJob_def Let_def)

section \<open>Properties of a frame\<close>

lemma run_node_kind:
  "run_node ext j inp w e = Inr (nd, out, w', e') \<Longrightarrow>
   is_PrepareFramebuffer nd = is_PrepareFramebuffer (job_node j)"
  by (cases "job_node j")
    (auto simp add: run_node_def split: prod.splits option.splits val.splits)

lemma run_job_Inr:
  "run_job ext j fr = Inr (j', fr', r) \<Longrightarrow>
   \<exists>inp nd out w e.
     read_input j (frame_varyings fr) = Inr inp \<and>
     run_node ext j inp (frame_world fr) (frame_external fr) = Inr (nd, out, w, e) \<and>
     j' = j\<lparr>job_node := nd\<rparr> \<and>
     fr' = \<lparr>frame_world = w,
            frame_varyings = write_output (job_output j) out (frame_varyings fr),
            frame_external = e\<rparr> \<and>
     r = \<lparr>run_name = job_name j, run_input = inp, run_output = out,
          run_batches = drop (length (args_context (frame_world fr))) (args_context w)\<rparr>"
  by (auto simp add: run_job_def split: sum.splits prod.splits)

lemma run_job_wiring:
  "run_job ext j fr = Inr (j', fr', r) \<Longrightarrow> wiring j' = wiring j \<and> run_name r = job_name j"
  by (auto dest!: run_job_Inr simp add: wiring_def dest: run_node_kind)

lemma run_jobs_Cons_Inr:
  "run_jobs ext (j # js) fr = Inr (js'', fr'', rs) \<Longrightarrow>
   \<exists>j' fr' r js' rs'.
     run_job ext j fr = Inr (j', fr', r) \<and> run_jobs ext js fr' = Inr (js', fr'', rs') \<and>
     js'' = j' # js' \<and> rs = r # rs'"
  by (auto split: sum.splits)

lemma run_jobs_append_Inr:
  "run_jobs ext (a @ b) fr = Inr (js, fr'', rs) \<Longrightarrow>
   \<exists>a' frm ra b' rb.
     run_jobs ext a fr = Inr (a', frm, ra) \<and> run_jobs ext b frm = Inr (b', fr'', rb) \<and>
     js = a' @ b' \<and> rs = ra @ rb"
proof (induction a arbitrary: fr js rs)
  case Nil
  then show ?case by simp
next
  case (Cons j a)
  from Cons.prems obtain j' fr' r js' rs' where
    s: "run_job ext j fr = Inr (j', fr', r)" "run_jobs ext (a @ b) fr' = Inr (js', fr'', rs')"
       "js = j' # js'" "rs = r # rs'"
    using run_jobs_Cons_Inr [of ext j "a @ b" fr js fr'' rs] by auto
  from Cons.IH [OF s(2)] s(1,3,4) show ?case by auto
qed

lemma run_jobs_wiring:
  "run_jobs ext js fr = Inr (js', fr', rs) \<Longrightarrow>
   map wiring js' = map wiring js \<and> map run_name rs = map job_name js"
proof (induction js arbitrary: fr js' rs)
  case Nil
  then show ?case by simp
next
  case (Cons j js)
  from run_jobs_Cons_Inr [OF Cons.prems] obtain j' frm r js1 rs1 where
    s: "run_job ext j fr = Inr (j', frm, r)" "run_jobs ext js frm = Inr (js1, fr', rs1)"
       "js' = j' # js1" "rs = r # rs1" by blast
  from Cons.IH [OF s(2)] run_job_wiring [OF s(1)] s(3,4) show ?case by simp
qed

lemma run_job_other_slot:
  "run_job ext j fr = Inr (j', fr', r) \<Longrightarrow> slot (job_output j) \<noteq> v \<Longrightarrow>
   frame_varyings fr' v = frame_varyings fr v"
  by (cases "job_output j")
    (auto dest!: run_job_Inr simp add: write_output_def split: option.splits)

lemma run_jobs_other_slot:
  "run_jobs ext js fr = Inr (js', fr', rs) \<Longrightarrow> v \<notin> slot ` job_output ` set js \<Longrightarrow>
   frame_varyings fr' v = frame_varyings fr v"
proof (induction js arbitrary: fr js' rs)
  case Nil
  then show ?case by simp
next
  case (Cons j js)
  from run_jobs_Cons_Inr [OF Cons.prems(1)] obtain j' frm r js1 rs1 where
    s: "run_job ext j fr = Inr (j', frm, r)" "run_jobs ext js frm = Inr (js1, fr', rs1)"
    by blast
  from Cons.prems(2) have "slot (job_output j) \<noteq> v" "v \<notin> slot ` job_output ` set js"
    by auto
  with Cons.IH [OF s(2)] run_job_other_slot [OF s(1)] show ?case by simp
qed

lemma PrepareFramebuffer_run_output:
  "PrepareFramebuffer_run n w = (n', w', out) \<Longrightarrow> out = pf_framebuffer n' \<and> out \<noteq> None"
  by (auto simp add: PrepareFramebuffer_run_def PrepareFramebuffer_allocate_def doInBatch_def
      PrepareFramebuffer_batch_def Let_def split: prod.splits option.splits)

lemma run_job_PrepareFramebuffer:
  "run_job ext j fr = Inr (j', fr', r) \<Longrightarrow> is_PrepareFramebuffer (job_node j) \<Longrightarrow>
   \<exists>fb. run_output r = Some (FramebufferPointer (Some fb)) \<and>
        frame_varyings fr' (slot (job_output j)) = Some (FramebufferPointer (Some fb))"
  by (cases "job_node j"; cases "job_output j")
    (auto dest!: run_job_Inr PrepareFramebuffer_run_output
      simp add: run_node_def write_output_def split: prod.splits)

lemma run_job_input:
  "run_job ext j fr = Inr (j', fr', r) \<Longrightarrow> job_input j = Some v \<Longrightarrow>
   run_input r = frame_varyings fr (slot v)"
  by (cases v) (auto dest!: run_job_Inr simp add: read_input_def split: option.splits)

lemma frame_passes_framebuffer:
  assumes w: "map wiring jobs =
      pre @ [(npf, ipf, Varying m, True)] @ mid @ [(nb, Some (Varying m), ob, kb)]"
    and mid: "m \<notin> slot ` (\<lambda>x. fst (snd (snd x))) ` set mid"
    and run: "run_jobs ext jobs fr = Inr (jobs', fr', trace)"
    and i: "i = length pre" and j: "j = length pre + length mid + 1"
  shows "length trace = Suc j \<and>
     (\<exists>fb. run_output (trace ! i) = Some (FramebufferPointer (Some fb)) \<and>
           run_input (trace ! j) = Some (FramebufferPointer (Some fb)))"
proof -
  from w obtain P R where 1: "jobs = P @ R" "map wiring P = pre"
      "map wiring R = [(npf, ipf, Varying m, True)] @ mid @ [(nb, Some (Varying m), ob, kb)]"
    by (auto simp add: map_eq_append_conv)
  from 1(3) obtain pfj R2 where 2: "R = pfj # R2" "wiring pfj = (npf, ipf, Varying m, True)"
      "map wiring R2 = mid @ [(nb, Some (Varying m), ob, kb)]"
    by (auto simp add: map_eq_Cons_conv)
  from 2(3) obtain M bj where 3: "R2 = M @ [bj]" "map wiring M = mid"
      "wiring bj = (nb, Some (Varying m), ob, kb)"
    by (auto simp add: map_eq_append_conv map_eq_Cons_conv)
  from run 1(1) obtain P' frP rP R' rR where
    4: "run_jobs ext P fr = Inr (P', frP, rP)" "run_jobs ext R frP = Inr (R', fr', rR)"
       "trace = rP @ rR"
    using run_jobs_append_Inr [of ext P R fr jobs' fr' trace] by auto
  from 4(2) 2(1) obtain pfj' fr2 r2 R2' rR2 where
    5: "run_job ext pfj frP = Inr (pfj', fr2, r2)" "run_jobs ext R2 fr2 = Inr (R2', fr', rR2)"
       "rR = r2 # rR2"
    using run_jobs_Cons_Inr [of ext pfj R2 frP R' fr' rR] by auto
  from 5(2) 3(1) obtain M' frM rM B' rB where
    6: "run_jobs ext M fr2 = Inr (M', frM, rM)" "run_jobs ext [bj] frM = Inr (B', fr', rB)"
       "rR2 = rM @ rB"
    using run_jobs_append_Inr [of ext M "[bj]" fr2 R2' fr' rR2] by auto
  from 6(2) obtain bj' r12 where
    7: "run_job ext bj frM = Inr (bj', fr', r12)" "rB = [r12]"
    using run_jobs_Cons_Inr [of ext bj "[]" frM B' fr' rB] by auto
  have lP: "length rP = length pre"
    using run_jobs_wiring [OF 4(1)] 1(2) by (metis length_map)
  have lM: "length rM = length mid"
    using run_jobs_wiring [OF 6(1)] 3(2) by (metis length_map)
  from 2(2) have pf: "is_PrepareFramebuffer (job_node pfj)" "slot (job_output pfj) = m"
    by (simp_all add: wiring_def)
  from run_job_PrepareFramebuffer [OF 5(1) pf(1)] pf(2) obtain fb where
    8: "run_output r2 = Some (FramebufferPointer (Some fb))"
       "frame_varyings fr2 m = Some (FramebufferPointer (Some fb))" by auto
  have "slot ` job_output ` set M = slot ` (\<lambda>x. fst (snd (snd x))) ` set mid"
    using 3(2) by (auto simp add: wiring_def image_iff)
  with mid have "m \<notin> slot ` job_output ` set M" by simp
  from run_jobs_other_slot [OF 6(1) this] 8(2)
  have 9: "frame_varyings frM m = Some (FramebufferPointer (Some fb))" by simp
  from 3(3) have "job_input bj = Some (Varying m)" by (simp add: wiring_def)
  from run_job_input [OF 7(1) this] 9
  have 10: "run_input r12 = Some (FramebufferPointer (Some fb))" by simp
  have t: "trace = rP @ r2 # rM @ [r12]" using 4(3) 5(3) 6(3) 7(2) by simp
  have "trace ! i = r2" using t lP i by (simp add: nth_append)
  moreover have "trace ! j = r12"
    using t lP lM j by (simp add: nth_append)
  moreover have "length trace = Suc j" using t lP lM j by simp
  ultimately show ?thesis using 8(1) 10 by auto
qed

lemma build_wiring:
  "map wiring (task_jobs (RenderForwardTask_build initForwardPipelines fadeEffect task items)) =
     (let t0 = FadeEffect_build fadeEffect task (items OPAQUE_SHAPE);
          n = task_varyings t0
      in (map wiring (task_jobs t0) @
           [(''LightingModel'', None, Varying n, False),
            (''ZoneRenderer'', Some (items META), Varying (n + 1), False)]) @
         [(''PrepareFramebuffer'', None, Varying (n + 2), True)] @
         [(''PrepareStencil'', Some (Varying (n + 2)), Varying (n + 3), False),
          (''DrawOpaques'', Some (items OPAQUE_SHAPE), Varying (n + 4), False),
          (''DrawBackgroundDeferred'', Some (Varying n), Varying (n + 5), False),
          (''DrawTransparents'', Some (items TRANSPARENT_SHAPE), Varying (n + 6), False),
          (''DrawMetaBounds'', Some (items META), Varying (n + 7), False),
          (''DrawBounds'', Some (items OPAQUE_SHAPE), Varying (n + 8), False),
          (''DrawTransparentBounds'', Some (items TRANSPARENT_SHAPE), Varying (n + 9), False),
          (''DrawZones'', Some (Varying (n + 1)), Varying (n + 10), False),
          (''HUD'', None, Varying (n + 11), False)] @
         [(''Blit'', Some (Varying (n + 2)), Varying (n + 12), False)])"
  by (simp add: RenderForwardTask_build_def addJob_def Let_def wiring_def)

lemma build_names:
  "map job_name (task_jobs (RenderForwardTask_build initForwardPipelines fadeEffect task items)) =
     map job_name (task_jobs (FadeEffect_build fadeEffect task (items OPAQUE_SHAPE))) @
     forward_names"
  by (simp add: RenderForwardTask_build_def addJob_def Let_def forward_names_def)

lemma wiring_names: "map wiring js = map wiring js' \<Longrightarrow> map job_name js = map job_name js'"
proof -
  assume "map wiring js = map wiring js'"
  then have "map fst (map wiring js) = map fst (map wiring js')" by simp
  then show ?thesis by (simp add: wiring_def comp_def)
qed

lemma built_frame_passes_framebuffer:
  assumes w: "map wiring jobs =
      map wiring (task_jobs (RenderForwardTask_build initForwardPipelines fadeEffect task items))"
    and run: "run_jobs ext jobs fr = Inr (jobs', fr', trace)"
  shows "(let k = length (task_jobs (FadeEffect_build fadeEffect task (items OPAQUE_SHAPE)))
     in drop k (map run_name trace) = forward_names \<and>
        (\<exists>fb. run_output (trace ! (k + 2)) = Some (FramebufferPointer (Some fb)) \<and>
              run_input (trace ! (k + 12)) = Some (FramebufferPointer (Some fb))))"
proof -
  let ?k = "length (task_jobs (FadeEffect_build fadeEffect task (items OPAQUE_SHAPE)))"
  have "length trace = Suc (?k + 12) \<and>
     (\<exists>fb. run_output (trace ! (?k + 2)) = Some (FramebufferPointer (Some fb)) \<and>
           run_input (trace ! (?k + 12)) = Some (FramebufferPointer (Some fb)))"
    by (rule frame_passes_framebuffer [OF w [unfolded build_wiring Let_def] _ run]) simp_all
  moreover have "map run_name trace =
      map job_name (task_jobs (FadeEffect_build fadeEffect task (items OPAQUE_SHAPE))) @
      forward_names"
    using run_jobs_wiring [OF run] wiring_names [OF w] by (simp add: build_names)
  ultimately show ?thesis by (simp add: Let_def)
qed

lemma built_frames_pass_framebuffer:
  assumes "map wiring jobs =
      map wiring (task_jobs (RenderForwardTask_build initForwardPipelines fadeEffect task items))"
    and "run_frames ext jobs fr betweens = Inr (jobs', fr', traces)"
    and "trace \<in> set traces"
  shows "(let k = length (task_jobs (FadeEffect_build fadeEffect task (items OPAQUE_SHAPE)))
     in drop k (map run_name trace) = forward_names \<and>
        (\<exists>fb. run_output (trace ! (k + 2)) = Some (FramebufferPointer (Some fb)) \<and>
              run_input (trace ! (k + 12)) = Some (FramebufferPointer (Some fb))))"
  using assms
proof (induction betweens arbitrary: jobs fr traces)
  case Nil
  then show ?case by simp
next
  case (Cons b bs)
  from Cons.prems(2) obtain jobs1 fr1 trace1 traces1 where
    s: "run_jobs ext jobs (b fr) = Inr (jobs1, fr1, trace1)"
       "run_frames ext jobs1 fr1 bs = Inr (jobs', fr', traces1)"
       "traces = trace1 # traces1"
    by (auto split: sum.splits)
  from run_jobs_wiring [OF s(1)] Cons.prems(1) have w1: "map wiring jobs1 =
      map wiring (task_jobs (RenderForwardTask_build initForwardPipelines fadeEffect task items))"
    by simp
  show ?case
  proof (cases "trace = trace1")
    case True
    with built_frame_passes_framebuffer [OF Cons.prems(1) s(1)] show ?thesis by simp
  next
    case False
    with Cons.prems(3) s(3) have "trace \<in> set traces1" by simp
    from Cons.IH [OF w1 s(2) this] show ?thesis .
  qed
qed

text \<open>
  C5: in every frame of the graph that \<open>build\<close> makes, whatever the nodes defined
  outside the file do and whatever happens between the frames, the framebuffer pointer
  that Blit reads from its input is the pointer that \<open>PrepareFramebuffer::run\<close> wrote
  to its output in that same frame, and it is not null. The frames are those of a run
  that does not fail; \<open>k\<close> is the number of jobs that the fade effect added before
  the thirteen of \<open>build\<close>.
\<close>

theorem Blit_reads_framebuffer_of_its_frame:
  assumes "run_frames ext
      (task_jobs (RenderForwardTask_build initForwardPipelines fadeEffect task items))
      fr betweens = Inr (jobs', fr', traces)"
    and "trace \<in> set traces"
  shows "(let k = length (task_jobs (FadeEffect_build fadeEffect task (items OPAQUE_SHAPE)))
     in drop k (map run_name trace) =
          [''LightingModel'', ''ZoneRenderer'', ''PrepareFramebuffer'', ''PrepareStencil'',
           ''DrawOpaques'', ''DrawBackgroundDeferred'', ''DrawTransparents'',
           ''DrawMetaBounds'', ''DrawBounds'', ''DrawTransparentBounds'', ''DrawZones'',
           ''HUD'', ''Blit''] \<and>
        (\<exists>fb. run_output (trace ! (k + 2)) = Some (FramebufferPointer (Some fb)) \<and>
              run_input (trace ! (k + 12)) = Some (FramebufferPointer (Some fb))))"
  using built_frames_pass_framebuffer [OF refl assms]
  by (simp add: forward_names_def)

lemma run_frames_length:
  "run_frames ext jobs fr betweens = Inr (jobs', fr', traces) \<Longrightarrow> length traces = length betweens"
  by (induction betweens arbitrary: jobs fr traces) (auto split: sum.splits)

lemmas frame_defs = example_graph_def example_frame_def example_external_def example_fade_def
  example_buckets_def example_world_def viewport_800x600_def
  RenderForwardTask_build_def addJob_def run_job_def read_input_def run_node_def
  write_output_def PrepareFramebuffer_run_def PrepareFramebuffer_release_def
  PrepareFramebuffer_allocate_def PrepareFramebuffer_batch_def doInBatch_def
  Framebuffer_create_def Texture_createRenderBuffer_def setRenderBuffer_def
  setDepthStencilBuffer_def getSize_def frameSize_def Stencil_run_def Stencil_batch_def
  Stencil_getPipeline_def Shader_createProgram_def Shader_makeProgram_def Pipeline_create_def
  Draw_run_def Draw_batch_def Draw_setup_def renderStateSortShapes_def shape_groups_def
  Let_def

theorem Blit_reads_framebuffer_of_its_frame_witness:
  "\<exists>jobs' fr' traces.
     run_frames example_external example_graph example_frame
       [id, \<lambda>fr. fr\<lparr>frame_world := (frame_world fr)\<lparr>args_viewport := viewport_1920x1080\<rparr>\<rparr>] =
       Inr (jobs', fr', traces) \<and>
     length traces = 2 \<and>
     (\<exists>fb. run_output (traces ! 1 ! 2) = Some (FramebufferPointer (Some fb)) \<and>
           run_input (traces ! 1 ! 12) = Some (FramebufferPointer (Some fb)))"
proof -
  let ?betweens =
    "[id, \<lambda>fr. fr\<lparr>frame_world := (frame_world fr)\<lparr>args_viewport := viewport_1920x1080\<rparr>\<rparr>]
       :: ((unit, unit, unit) frame \<Rightarrow> (unit, unit, unit) frame) list"
  have "\<exists>r. run_frames example_external example_graph example_frame ?betweens = Inr r"
    by (simp add: frame_defs viewport_1920x1080_def)
  then obtain jobs' fr' traces where
    r: "run_frames example_external example_graph example_frame ?betweens =
          Inr (jobs', fr', traces)"
    by auto
  have l: "length traces = 2" using run_frames_length [OF r] by simp
  then have m: "traces ! 1 \<in> set traces" by simp
  have k: "length (task_jobs (FadeEffect_build example_fade
      \<lparr>task_jobs = [], task_varyings = 7\<rparr> (example_buckets OPAQUE_SHAPE))) = 0"
    by (simp add: example_fade_def)
  from Blit_reads_framebuffer_of_its_frame
    [OF r [unfolded example_graph_def] m, unfolded Let_def k add.left_neutral]
  have "\<exists>fb. run_output (traces ! 1 ! 2) = Some (FramebufferPointer (Some fb)) \<and>
             run_input (traces ! 1 ! 12) = Some (FramebufferPointer (Some fb))"
    by blast
  with r l show ?thesis by blast
qed







end
